theory Spec2Isabelle
  imports Main "HOL-Library.AList"
begin

section \<open>Dates, times and timestamps\<close>

text \<open>
  The widget (\<^verbatim>\<open>src/SalahWidget.py\<close>) works on Qt's \<^verbatim>\<open>QDate\<close>, \<^verbatim>\<open>QTime\<close> and
  \<^verbatim>\<open>QDateTime\<close>. A \<^verbatim>\<open>QDateTime\<close> has millisecond resolution; it is modelled as the
  number of milliseconds on the local time line (a fixed offset from UTC: daylight-saving
  changes are not modelled). A \<^verbatim>\<open>QDate\<close> is a day number on that line, a \<^verbatim>\<open>QTime\<close> is
  the number of milliseconds since the start of the day, or invalid (\<open>None\<close>).
\<close>

type_synonym QDate = int
type_synonym QTime = "int option"
type_synonym QDateTime = int

abbreviation msecs_per_day :: int where
  "msecs_per_day \<equiv> 86400000"

definition date_of :: "QDateTime \<Rightarrow> QDate" where
  "date_of t = t div msecs_per_day"

definition time_of :: "QDateTime \<Rightarrow> int" where
  "time_of t = t mod msecs_per_day"

text \<open>
  \<^verbatim>\<open>QDateTime(date, time)\<close>: a valid date with an invalid time gives midnight of that date.
\<close>

definition QDateTime_of :: "QDate \<Rightarrow> QTime \<Rightarrow> QDateTime" where
  "QDateTime_of d t = d * msecs_per_day + (case t of None \<Rightarrow> 0 | Some ms \<Rightarrow> ms)"

text \<open>
  \<^verbatim>\<open>a.secsTo(b)\<close> on \<^verbatim>\<open>QDateTime\<close> is the millisecond difference divided by 1000 with
  C++ integer division, which truncates towards zero. \<^verbatim>\<open>addSecs\<close> adds whole seconds.
  The comparisons \<^verbatim>\<open>time > now\<close> and \<^verbatim>\<open>time < next_prayer_time\<close> compare milliseconds.
\<close>

definition secsTo :: "QDateTime \<Rightarrow> QDateTime \<Rightarrow> int" where
  "secsTo a b = (if a \<le> b then (b - a) div 1000 else - ((a - b) div 1000))"

definition addSecs :: "QDateTime \<Rightarrow> int \<Rightarrow> QDateTime" where
  "addSecs t n = t + 1000 * n"

text \<open>
  \<^verbatim>\<open>a.secsTo(b)\<close> on \<^verbatim>\<open>QTime\<close> (both valid, milliseconds since the start of the day)
  drops the milliseconds of both operands.
\<close>

definition QTime_secsTo :: "int \<Rightarrow> int \<Rightarrow> int" where
  "QTime_secsTo a b = b div 1000 - a div 1000"

text \<open>
  \<^verbatim>\<open>QTime.fromString(s, "HH:mm")\<close>: two digits of hours (00 to 23), a colon, two digits of
  minutes (00 to 59); anything else is an invalid time.
\<close>

definition is_digit :: "char \<Rightarrow> bool" where
  "is_digit c = (48 \<le> (of_char c :: nat) \<and> (of_char c :: nat) \<le> 57)"

definition digit_val :: "char \<Rightarrow> int" where
  "digit_val c = int (of_char c) - 48"

fun QTime_fromString :: "string \<Rightarrow> QTime" where
  "QTime_fromString [h1, h2, c, m1, m2] =
     (let hh = 10 * digit_val h1 + digit_val h2;
          mm = 10 * digit_val m1 + digit_val m2
      in if is_digit h1 \<and> is_digit h2 \<and> c = CHR '':'' \<and> is_digit m1 \<and> is_digit m2
            \<and> hh < 24 \<and> mm < 60
         then Some ((hh * 60 + mm) * 60000) else None)"
| "QTime_fromString _ = None"


section \<open>The environment: wall clock and prayer-time provider\<close>

text \<open>
  Every call of \<^verbatim>\<open>QDateTime.currentDateTime()\<close>, \<^verbatim>\<open>QDate.currentDate()\<close> or
  \<^verbatim>\<open>QTime.currentTime()\<close> reads the wall clock; \<open>clock env k\<close> is the value of the
  \<open>k\<close>-th reading. Every \<^verbatim>\<open>requests.get\<close> on the prayer API sends a request;
  \<open>provider env n rq\<close> is the answer to request \<open>rq\<close> when \<open>n\<close> requests have been sent
  before. City, country and method are fixed configuration, so a request is its
  \<^verbatim>\<open>date\<close> parameter and whether the \<^verbatim>\<open>timezone\<close> parameter is present
  (\<^verbatim>\<open>update_prayer_times\<close> sends it, the fallback in \<^verbatim>\<open>update_next_prayer\<close> does not).

  An answer either makes the code raise (\<^verbatim>\<open>requests.get\<close> or \<^verbatim>\<open>.json()\<close> fails, or the
  document has no \<^verbatim>\<open>code\<close>), or carries \<^verbatim>\<open>data['code']\<close> and the object
  \<^verbatim>\<open>data['data']['timings']\<close> of clock strings; a key that is missing there raises
  \<^verbatim>\<open>KeyError\<close> when it is read.
\<close>

type_synonym request = "QDate \<times> bool"

datatype response = Raises | Reply int "(string \<times> string) list"

record env =
  clock :: "nat \<Rightarrow> QDateTime"
  provider :: "nat \<Rightarrow> request \<Rightarrow> response"


section \<open>The widget state\<close>

text \<open>
  The fields of \<^verbatim>\<open>IslamicWidget\<close> that the prayer logic reads and writes.
  \<open>next_prayer\<close> and \<open>next_prayer_time\<close> are \<open>None\<close> while the attribute does not exist
  (\<^verbatim>\<open>hasattr\<close> is false). \<open>prayer_times\<close> is the dictionary in insertion order; it is
  assigned before every read, and \<open>[]\<close> stands for the attribute not yet assigned.
  \<open>daily_timer\<close> is the interval of the daily timer in milliseconds once started.
  \<open>clock_reads\<close> counts the readings of the wall clock so far and \<open>requests\<close> lists the
  requests sent to the prayer API so far.
\<close>

record widget =
  prayer_times :: "(string \<times> QDateTime) list"
  next_prayer :: "string option"
  next_prayer_time :: "QDateTime option"
  next_prayer_label :: string
  countdown_label :: string
  countdown_timer :: "int option"
  daily_timer :: "int option"
  clock_reads :: nat
  requests :: "request list"

definition currentDateTime :: "env \<Rightarrow> widget \<Rightarrow> QDateTime \<times> widget" where
  "currentDateTime env s = (clock env (clock_reads s), s\<lparr>clock_reads := Suc (clock_reads s)\<rparr>)"

definition currentDate :: "env \<Rightarrow> widget \<Rightarrow> QDate \<times> widget" where
  "currentDate env s =
     (date_of (clock env (clock_reads s)), s\<lparr>clock_reads := Suc (clock_reads s)\<rparr>)"

definition currentTime :: "env \<Rightarrow> widget \<Rightarrow> int \<times> widget" where
  "currentTime env s =
     (time_of (clock env (clock_reads s)), s\<lparr>clock_reads := Suc (clock_reads s)\<rparr>)"

definition requests_get :: "env \<Rightarrow> request \<Rightarrow> widget \<Rightarrow> response \<times> widget" where
  "requests_get env rq s =
     (provider env (length (requests s)) rq, s\<lparr>requests := requests s @ [rq]\<rparr>)"

text \<open>The widget after \<^verbatim>\<open>init_ui\<close> (lines 168 and 170 set the two labels).\<close>

definition init_ui :: widget where
  "init_ui = \<lparr>prayer_times = [], next_prayer = None, next_prayer_time = None,
     next_prayer_label = ''Next Prayer: Calculating...'',
     countdown_label = ''Time Remaining: --:--:--'',
     countdown_timer = None, daily_timer = None, clock_reads = 0, requests = []\<rparr>"


section \<open>Countdown formatting\<close>

text \<open>
  The format specification \<^verbatim>\<open>:02d\<close> of Python: the decimal digits of the integer, with a
  minus sign when negative, padded with zeros to a width of two characters.
\<close>

definition digit_char :: "nat \<Rightarrow> char" where
  "digit_char d = char_of (48 + d)"

fun digits :: "nat \<Rightarrow> string" where
  "digits n = (if n < 10 then [digit_char n] else digits (n div 10) @ [digit_char (n mod 10)])"

declare digits.simps [simp del]

definition fmt02d :: "int \<Rightarrow> string" where
  "fmt02d n =
     (if n < 0 then CHR ''-'' # digits (nat (- n))
      else if n < 10 then CHR ''0'' # digits (nat n)
      else digits (nat n))"

text \<open>Lines 455 to 459: the string \<^verbatim>\<open>time_str\<close>.\<close>

definition countdown_time_str :: "int \<Rightarrow> string" where
  "countdown_time_str seconds_remaining =
     (let hours = seconds_remaining div 3600;
          minutes = (seconds_remaining mod 3600) div 60;
          seconds = seconds_remaining mod 60
      in fmt02d hours @ '':'' @ fmt02d minutes @ '':'' @ fmt02d seconds)"


section \<open>Fetching and parsing the prayer times\<close>

text \<open>\<^verbatim>\<open>time_to_datetime\<close> (lines 388 to 392) reads the current date itself.\<close>

definition time_to_datetime :: "env \<Rightarrow> string \<Rightarrow> widget \<Rightarrow> QDateTime \<times> widget" where
  "time_to_datetime env time_str s =
     (let (today, s1) = currentDate env s;
          time = QTime_fromString time_str
      in (QDateTime_of today time, s1))"

text \<open>The seven names, in the order of the dictionary literal of lines 347 to 355.\<close>

definition prayer_names :: "string list" where
  "prayer_names =
     [''Fajr'', ''Sunrise'', ''Dhuhr'', ''Asr'', ''Maghrib'', ''Isha'', ''Midnight'']"

text \<open>
  The dictionary literal of lines 347 to 355, entry by entry: \<^verbatim>\<open>timings[k]\<close> is read
  first (\<open>None\<close> is the \<^verbatim>\<open>KeyError\<close>), then converted.
\<close>

fun extract_times ::
  "env \<Rightarrow> (string \<times> string) list \<Rightarrow> string list \<Rightarrow> widget
     \<Rightarrow> (string \<times> QDateTime) list option \<times> widget" where
  "extract_times env timings [] s = (Some [], s)"
| "extract_times env timings (k # ks) s =
     (case map_of timings k of
        None \<Rightarrow> (None, s)
      | Some str \<Rightarrow>
          (let (t, s1) = time_to_datetime env str s
           in case extract_times env timings ks s1 of
                (None, s2) \<Rightarrow> (None, s2)
              | (Some rest, s2) \<Rightarrow> (Some ((k, t) # rest), s2)))"

text \<open>
  Which way the straight-line part of \<^verbatim>\<open>update_prayer_times\<close> (lines 328 to 373) went:
  it reached line 376, it took the \<^verbatim>\<open>else\<close> of line 379, or it raised.
\<close>

datatype fetch_outcome = Fetched | Api_Error | Raised

text \<open>Lines 357 to 373: tomorrow's Fajr and the midpoint Midnight.\<close>

definition adjust_midnight :: "env \<Rightarrow> widget \<Rightarrow> fetch_outcome \<times> widget" where
  "adjust_midnight env s =
     (case map_of (prayer_times s) ''Isha'' of
        None \<Rightarrow> (Raised, s)
      | Some isha_time \<Rightarrow>
          (let (d, s1) = currentDate env s;
               tomorrow = d + 1;
               (tomorrow_data, s2) = requests_get env (tomorrow, True) s1
           in case tomorrow_data of
                Raises \<Rightarrow> (Raised, s2)
              | Reply code timings \<Rightarrow>
                  if code = 200 then
                    (case map_of timings ''Fajr'' of
                       None \<Rightarrow> (Raised, s2)
                     | Some str \<Rightarrow>
                         (let (fajr_today, s3) = time_to_datetime env str s2;
                              tomorrow_fajr = QDateTime_of tomorrow (Some (time_of fajr_today));
                              seconds_between = secsTo isha_time tomorrow_fajr;
                              midnight_seconds = seconds_between div 2
                          in (Fetched, s3\<lparr>prayer_times :=
                                AList.update ''Midnight'' (addSecs isha_time midnight_seconds)
                                  (prayer_times s3)\<rparr>)))
                  else (Fetched, s2)))"

text \<open>Lines 328 to 373.\<close>

definition fetch_prayer_times :: "env \<Rightarrow> widget \<Rightarrow> fetch_outcome \<times> widget" where
  "fetch_prayer_times env s =
     (let (today, s1) = currentDate env s;
          (data, s2) = requests_get env (today, True) s1
      in case data of
           Raises \<Rightarrow> (Raised, s2)
         | Reply code timings \<Rightarrow>
             if code = 200 then
               (case extract_times env timings prayer_names s2 of
                  (None, s3) \<Rightarrow> (Raised, s3)
                | (Some pts, s3) \<Rightarrow> adjust_midnight env (s3\<lparr>prayer_times := pts\<rparr>))
             else (Api_Error, s2))"

text \<open>Lines 380 and 381, and lines 384 and 385.\<close>

definition prayer_api_error :: "widget \<Rightarrow> widget" where
  "prayer_api_error s =
     s\<lparr>next_prayer_label := ''Prayer API Error: Try again later'',
       countdown_label := ''--:--:--''\<rparr>"

definition update_error :: "widget \<Rightarrow> widget" where
  "update_error s =
     s\<lparr>next_prayer_label := ''Error: Could not update prayer times'',
       countdown_label := ''--:--:--''\<rparr>"

text \<open>
  \<^verbatim>\<open>update_prayer_displays\<close> (lines 594 to 606) writes the grid of time labels, which is
  not part of the modelled state. It reads \<^verbatim>\<open>self.next_prayer\<close> for the first entry
  whose name has a label, and raises \<^verbatim>\<open>AttributeError\<close> when that attribute does not
  exist.
\<close>

definition update_prayer_displays_raises :: "widget \<Rightarrow> bool" where
  "update_prayer_displays_raises s =
     (next_prayer s = None \<and> list_ex (\<lambda>(prayer, time). prayer \<in> set prayer_names) (prayer_times s))"


section \<open>Next-prayer resolution\<close>

text \<open>
  The loop of lines 402 to 406. The two variables \<^verbatim>\<open>next_prayer\<close> and
  \<^verbatim>\<open>next_prayer_time\<close> are \<^verbatim>\<open>None\<close> together or set together, so they are one optional
  pair (\<open>found\<close>, \<open>found_time\<close>).
\<close>

fun scan_prayers ::
  "QDateTime \<Rightarrow> (string \<times> QDateTime) list \<Rightarrow> (string \<times> QDateTime) option
     \<Rightarrow> (string \<times> QDateTime) option" where
  "scan_prayers now [] acc = acc"
| "scan_prayers now ((prayer, time) # rest) acc =
     scan_prayers now rest
       (if time > now then
          (case acc of
             None \<Rightarrow> Some (prayer, time)
           | Some (found, found_time) \<Rightarrow>
               if time < found_time then Some (prayer, time) else acc)
        else acc)"

text \<open>
  Lines 411 to 438: the fallback to tomorrow's Fajr. The result is the timestamp, or
  \<open>None\<close> when the function returns early with a message in the label.
\<close>

definition tomorrow_fajr_fallback :: "env \<Rightarrow> widget \<Rightarrow> QDateTime option \<times> widget" where
  "tomorrow_fajr_fallback env s =
     (let (d, s1) = currentDate env s;
          tomorrow = d + 1;
          (data, s2) = requests_get env (tomorrow, False) s1
      in case data of
           Raises \<Rightarrow> (None, s2\<lparr>next_prayer_label := ''Error fetching tomorrow's prayer times''\<rparr>)
         | Reply code timings \<Rightarrow>
             if code = 200 then
               (case map_of timings ''Fajr'' of
                  None \<Rightarrow>
                    (None, s2\<lparr>next_prayer_label := ''Error fetching tomorrow's prayer times''\<rparr>)
                | Some fajr_time \<Rightarrow>
                    (Some (QDateTime_of tomorrow (QTime_fromString fajr_time)), s2))
             else
               (None, s2\<lparr>next_prayer_label := ''Could not fetch tomorrow's prayer times''\<rparr>))"

text \<open>Lines 441 to 445.\<close>

definition store_next_prayer :: "string \<Rightarrow> QDateTime \<Rightarrow> widget \<Rightarrow> widget" where
  "store_next_prayer name t s =
     s\<lparr>next_prayer := Some name, next_prayer_time := Some t,
       next_prayer_label := ''Next: '' @ name\<rparr>"


section \<open>The three mutually recursive operations\<close>

text \<open>
  \<^verbatim>\<open>update_countdown\<close> calls \<^verbatim>\<open>update_prayer_times\<close> when the time has run out, which
  calls \<^verbatim>\<open>update_next_prayer\<close>, which calls \<^verbatim>\<open>update_countdown\<close> again. Python bounds
  the depth of nested calls: the first argument is the number of nested refreshes that
  still fit under the interpreter's recursion limit.

  A refresh that no longer fits raises \<^verbatim>\<open>RecursionError\<close> in its \<^verbatim>\<open>try\<close> block, at the
  first call that needs frames of its own (\<^verbatim>\<open>requests.get\<close> of line 340, after the date
  has been read and before the request is sent). \<^verbatim>\<open>RecursionError\<close> is an
  \<^verbatim>\<open>Exception\<close>, so the handler of lines 383 to 386 writes the error labels and the
  refresh returns.
\<close>

definition update_prayer_times_over_limit :: "env \<Rightarrow> widget \<Rightarrow> widget" where
  "update_prayer_times_over_limit env s =
     (let (today, s1) = currentDate env s in update_error s1)"

text \<open>
  The result of the three operations is \<open>Some\<close> of the widget when the call returns; that
  every call returns is proved below.
\<close>

function update_prayer_times :: "nat \<Rightarrow> env \<Rightarrow> widget \<Rightarrow> widget option"
  and update_next_prayer :: "nat \<Rightarrow> env \<Rightarrow> widget \<Rightarrow> widget option"
  and update_countdown :: "nat \<Rightarrow> env \<Rightarrow> widget \<Rightarrow> widget option" where
  "update_prayer_times fuel env s =
     (case fetch_prayer_times env s of
        (Raised, s1) \<Rightarrow> Some (update_error s1)
      | (Api_Error, s1) \<Rightarrow> Some (prayer_api_error s1)
      | (Fetched, s1) \<Rightarrow>
          (case update_next_prayer fuel env s1 of
             None \<Rightarrow> None
           | Some s2 \<Rightarrow>
               if update_prayer_displays_raises s2 then Some (update_error s2) else Some s2))"
| "update_next_prayer fuel env s =
     (let (now, s1) = currentDateTime env s
      in case scan_prayers now (prayer_times s1) None of
           Some (name, t) \<Rightarrow> update_countdown fuel env (store_next_prayer name t s1)
         | None \<Rightarrow>
             (case tomorrow_fajr_fallback env s1 of
                (None, s2) \<Rightarrow> Some s2
              | (Some t, s2) \<Rightarrow>
                  update_countdown fuel env (store_next_prayer ''Fajr (Tomorrow)'' t s2)))"
| "update_countdown fuel env s =
     (case next_prayer_time s of
        None \<Rightarrow> Some s
      | Some t \<Rightarrow>
          (let (now, s1) = currentDateTime env s;
               seconds_remaining = secsTo now t
           in if seconds_remaining > 0
              then Some (s1\<lparr>countdown_label := ''Time Remaining: '' @ countdown_time_str seconds_remaining\<rparr>)
              else (case fuel of
                      0 \<Rightarrow> Some (update_prayer_times_over_limit env s1)
                    | Suc n \<Rightarrow> update_prayer_times n env s1)))"
  by pat_completeness auto
termination
  by (relation "measure (\<lambda>x. case x of
         Inl (fuel, _, _) \<Rightarrow> 3 * fuel + 2
       | Inr (Inl (fuel, _, _)) \<Rightarrow> 3 * fuel + 1
       | Inr (Inr (fuel, _, _)) \<Rightarrow> 3 * fuel)") auto

declare update_prayer_times.simps [simp del]
declare update_next_prayer.simps [simp del]
declare update_countdown.simps [simp del]


section \<open>Timers and the refresh operations\<close>

text \<open>
  \<^verbatim>\<open>update_data\<close> (lines 309 to 315) also updates the verse and the hadith; both catch every
  exception and write only their own labels, which are not part of the modelled state.
\<close>

definition update_data :: "nat \<Rightarrow> env \<Rightarrow> widget \<Rightarrow> widget option" where
  "update_data fuel env s = update_prayer_times fuel env s"

text \<open>\<^verbatim>\<open>setup_timers\<close> (lines 248 to 267).\<close>

definition setup_timers :: "env \<Rightarrow> widget \<Rightarrow> widget" where
  "setup_timers env s =
     (let s1 = s\<lparr>countdown_timer := Some 1000\<rparr>;
          (current_time, s2) = currentTime env s1;
          target_time = 0;
          secs_until_midnight = QTime_secsTo current_time target_time;
          secs_until_midnight =
            (if secs_until_midnight < 0 then secs_until_midnight + 24 * 60 * 60
             else secs_until_midnight)
      in s2\<lparr>daily_timer := Some (secs_until_midnight * 1000)\<rparr>)"

text \<open>\<^verbatim>\<open>daily_update\<close> (lines 317 to 322).\<close>

definition daily_update :: "nat \<Rightarrow> env \<Rightarrow> widget \<Rightarrow> widget option" where
  "daily_update fuel env s =
     (case update_data fuel env s of
        None \<Rightarrow> None
      | Some s1 \<Rightarrow> Some (s1\<lparr>daily_timer := Some (24 * 60 * 60 * 1000)\<rparr>))"


text \<open>
  The countdown timer (lines 251 to 253) fires every second and calls
  \<^verbatim>\<open>update_countdown\<close>; \<open>countdown_ticks n\<close> is \<open>n\<close> firings in a row.
\<close>

fun countdown_ticks :: "nat \<Rightarrow> nat \<Rightarrow> env \<Rightarrow> widget \<Rightarrow> widget option" where
  "countdown_ticks 0 fuel env s = Some s"
| "countdown_ticks (Suc n) fuel env s =
     (case update_countdown fuel env s of
        None \<Rightarrow> None
      | Some s1 \<Rightarrow> countdown_ticks n fuel env s1)"

text \<open>
  The part of the widget that the prayer logic owns: the stored prayer times, the next
  prayer and the two labels. The counters of clock readings and of requests sent belong to
  the environment.
\<close>

definition prayer_state ::
  "widget \<Rightarrow> (string \<times> QDateTime) list \<times> string option \<times> QDateTime option \<times> string \<times> string" where
  "prayer_state s =
     (prayer_times s, next_prayer s, next_prayer_time s, next_prayer_label s, countdown_label s)"


section \<open>Example inputs\<close>

text \<open>A day of prayer times as the provider sends them, and providers and clocks built on it.\<close>

definition example_timings :: "(string \<times> string) list" where
  "example_timings =
     [(''Fajr'', ''05:00''), (''Sunrise'', ''06:30''), (''Dhuhr'', ''12:15''),
      (''Asr'', ''15:30''), (''Maghrib'', ''18:10''), (''Isha'', ''20:00''),
      (''Midnight'', ''00:30'')]"

text \<open>A clock that stands still at \<open>now\<close> and a provider that always succeeds.\<close>

definition env_fixed :: "QDateTime \<Rightarrow> env" where
  "env_fixed now = \<lparr>clock = (\<lambda>k. now), provider = (\<lambda>n rq. Reply 200 example_timings)\<rparr>"

text \<open>A widget whose next prayer is 3661 seconds after the epoch.\<close>

definition widget_3661 :: widget where
  "widget_3661 = init_ui\<lparr>next_prayer := Some ''Fajr'', next_prayer_time := Some 3661000\<rparr>"


text \<open>The widget with the times of day 0 stored, as a refresh on that day leaves them.\<close>

definition widget_day0 :: widget where
  "widget_day0 = init_ui\<lparr>prayer_times :=
     [(''Fajr'', 18000000), (''Sunrise'', 23400000), (''Dhuhr'', 44100000),
      (''Asr'', 55800000), (''Maghrib'', 65400000), (''Isha'', 72000000),
      (''Midnight'', 88200000)]\<rparr>"


text \<open>The same widget with every stored time of day 0 in the past at 23:00 of day 0.\<close>

definition widget_evening :: widget where
  "widget_evening = init_ui\<lparr>prayer_times :=
     [(''Fajr'', 18000000), (''Sunrise'', 23400000), (''Dhuhr'', 44100000),
      (''Asr'', 55800000), (''Maghrib'', 65400000), (''Isha'', 72000000),
      (''Midnight'', 1800000)]\<rparr>"


text \<open>
  A clock that stands still at \<open>now\<close> and a provider that answers for the date of \<open>now\<close>
  only: every request for another date gets status 500.
\<close>

definition env_today_only :: "QDateTime \<Rightarrow> env" where
  "env_today_only now =
     \<lparr>clock = (\<lambda>k. now),
      provider = (\<lambda>n rq. if fst rq = date_of now then Reply 200 example_timings
                            else Reply 500 [])\<rparr>"


text \<open>A clock that stands still at \<open>now\<close> and a provider that always answers status 500.\<close>

definition env_down :: "QDateTime \<Rightarrow> env" where
  "env_down now = \<lparr>clock = (\<lambda>k. now), provider = (\<lambda>n rq. Reply 500 [])\<rparr>"

text \<open>
  A clock that starts half a second before 05:00 of day 0 and advances by 25 ms with every
  reading, with a provider that always succeeds; and the widget of day 0 waiting for Fajr
  at 05:00.
\<close>

definition env_ticking :: env where
  "env_ticking =
     \<lparr>clock = (\<lambda>k. 17999500 + 25 * int k), provider = (\<lambda>n rq. Reply 200 example_timings)\<rparr>"

definition widget_before_fajr :: widget where
  "widget_before_fajr =
     widget_day0\<lparr>next_prayer := Some ''Fajr'', next_prayer_time := Some 18000000,
       next_prayer_label := ''Next: Fajr''\<rparr>"


section \<open>Countdown tick\<close>

lemma time_of_range: "0 \<le> time_of t \<and> time_of t < 86400000"
  by (simp add: time_of_def)

lemma digit_char_0: "digit_char 0 = CHR ''0''"
  by code_simp

lemma fmt02d_two_digits:
  assumes "0 \<le> n" and "n < 100"
  shows "fmt02d n = [digit_char (nat (n div 10)), digit_char (nat (n mod 10))]"
proof -
  obtain m where m: "n = int m" using assms(1) nonneg_int_cases by blast
  with assms(2) have m100: "m < 100" by simp
  have div_mod: "nat (n div 10) = m div 10" "nat (n mod 10) = m mod 10"
    using m by (simp_all add: nat_div_distrib nat_mod_distrib)
  show ?thesis
  proof (cases "m < 10")
    case True
    then show ?thesis
      using m div_mod by (simp add: fmt02d_def digits.simps [of m] digit_char_0)
  next
    case False
    moreover from m100 have "m div 10 < 10" by simp
    ultimately show ?thesis
      using m div_mod
      by (simp add: fmt02d_def digits.simps [of m] digits.simps [of "m div 10"])
  qed
qed

lemma update_countdown_display:
  assumes "next_prayer_time s = Some t" and "0 < secsTo (clock env (clock_reads s)) t"
  shows "update_countdown fuel env s =
     Some (s\<lparr>clock_reads := Suc (clock_reads s),
             countdown_label := ''Time Remaining: ''
               @ countdown_time_str (secsTo (clock env (clock_reads s)) t)\<rparr>)"
  using assms by (simp add: update_countdown.simps currentDateTime_def)

lemma update_countdown_unset:
  "next_prayer_time s = None \<Longrightarrow> update_countdown fuel env s = Some s"
  by (simp add: update_countdown.simps)

text \<open>
  Claim C5. When the remaining time \<open>r\<close> (in whole seconds) is strictly positive, the
  countdown tick writes \<^verbatim>\<open>HH:MM:SS\<close> with hours \<open>r div 3600\<close>, minutes
  \<open>(r mod 3600) div 60\<close> and seconds \<open>r mod 60\<close> after the prefix of the label. Minutes
  and seconds are always two decimal digits, the hours are two digits below one hundred
  hours, and 3661 seconds give \<^verbatim>\<open>01:01:01\<close>.
\<close>

theorem countdown_formats_remaining:
  assumes "next_prayer_time s = Some t"
    and "secsTo (clock env (clock_reads s)) t = r"
    and "0 < r"
  shows "update_countdown fuel env s =
           Some (s\<lparr>clock_reads := Suc (clock_reads s),
                   countdown_label := ''Time Remaining: '' @ fmt02d (r div 3600) @ '':''
                     @ fmt02d ((r mod 3600) div 60) @ '':'' @ fmt02d (r mod 60)\<rparr>)
         \<and> fmt02d ((r mod 3600) div 60)
             = [digit_char (nat ((r mod 3600) div 60 div 10)),
                digit_char (nat ((r mod 3600) div 60 mod 10))]
         \<and> fmt02d (r mod 60)
             = [digit_char (nat (r mod 60 div 10)), digit_char (nat (r mod 60 mod 10))]
         \<and> (r < 360000 \<longrightarrow> fmt02d (r div 3600)
             = [digit_char (nat (r div 3600 div 10)), digit_char (nat (r div 3600 mod 10))])
         \<and> countdown_time_str 3661 = ''01:01:01''"
proof -
  have label: "update_countdown fuel env s =
           Some (s\<lparr>clock_reads := Suc (clock_reads s),
                   countdown_label := ''Time Remaining: '' @ fmt02d (r div 3600) @ '':''
                     @ fmt02d ((r mod 3600) div 60) @ '':'' @ fmt02d (r mod 60)\<rparr>)"
    using assms update_countdown_display [of s t env fuel]
    by (simp add: countdown_time_str_def)
  have "0 \<le> (r mod 3600) div 60" and "(r mod 3600) div 60 < 100"
    using pos_mod_bound [of 3600 r] pos_mod_sign [of 3600 r]
    by (simp_all add: pos_imp_zdiv_nonneg_iff)
  then have minutes: "fmt02d ((r mod 3600) div 60)
             = [digit_char (nat ((r mod 3600) div 60 div 10)),
                digit_char (nat ((r mod 3600) div 60 mod 10))]"
    by (rule fmt02d_two_digits)
  have "0 \<le> r mod 60" and "r mod 60 < 100"
    using pos_mod_bound [of 60 r] by simp_all
  then have seconds: "fmt02d (r mod 60)
             = [digit_char (nat (r mod 60 div 10)), digit_char (nat (r mod 60 mod 10))]"
    by (rule fmt02d_two_digits)
  have hours: "r < 360000 \<longrightarrow> fmt02d (r div 3600)
             = [digit_char (nat (r div 3600 div 10)), digit_char (nat (r div 3600 mod 10))]"
  proof
    assume "r < 360000"
    then have "r div 3600 < 100" by linarith
    moreover have "0 \<le> r div 3600" using assms(3) by (simp add: pos_imp_zdiv_nonneg_iff)
    ultimately show "fmt02d (r div 3600)
             = [digit_char (nat (r div 3600 div 10)), digit_char (nat (r div 3600 mod 10))]"
      by (intro fmt02d_two_digits)
  qed
  have example: "countdown_time_str 3661 = ''01:01:01''"
    by code_simp
  from label minutes seconds hours example show ?thesis by blast
qed

theorem countdown_formats_remaining_witness:
  "next_prayer_time widget_3661 = Some 3661000
   \<and> secsTo (clock (env_fixed 0) (clock_reads widget_3661)) 3661000 = 3661
   \<and> update_countdown 0 (env_fixed 0) widget_3661 =
       Some (widget_3661\<lparr>clock_reads := 1, countdown_label := ''Time Remaining: 01:01:01''\<rparr>)"
proof -
  have h1: "next_prayer_time widget_3661 = Some 3661000"
    by (simp add: widget_3661_def)
  have h2: "secsTo (clock (env_fixed 0) (clock_reads widget_3661)) 3661000 = 3661"
    by (simp add: env_fixed_def secsTo_def)
  have h3: "(0::int) < 3661" by simp
  have f1: "fmt02d (3661 div 3600) = ''01''" by code_simp
  have f2: "fmt02d ((3661 mod 3600) div 60) = ''01''" by code_simp
  have f3: "fmt02d (3661 mod 60) = ''01''" by code_simp
  have reads: "clock_reads widget_3661 = 0"
    by (simp add: widget_3661_def init_ui_def)
  from countdown_formats_remaining [OF h1 h2 h3, of 0]
  have "update_countdown 0 (env_fixed 0) widget_3661 =
       Some (widget_3661\<lparr>clock_reads := 1, countdown_label := ''Time Remaining: 01:01:01''\<rparr>)"
    by (simp only: f1 f2 f3 reads) simp
  with h1 h2 show ?thesis by simp
qed

section \<open>Daily refresh timer\<close>

lemma setup_timers_delay:
  "daily_timer (setup_timers env s) =
     Some (1000 * (if time_of (clock env (clock_reads s)) div 1000 = 0 then 0
                   else 86400 - time_of (clock env (clock_reads s)) div 1000))"
proof -
  have "0 \<le> time_of (clock env (clock_reads s)) div 1000"
    using time_of_range [of "clock env (clock_reads s)"] by (simp add: pos_imp_zdiv_nonneg_iff)
  then show ?thesis
    by (auto simp add: setup_timers_def currentTime_def QTime_secsTo_def Let_def)
qed

text \<open>
  Claim C7. \<^verbatim>\<open>setup_timers\<close> starts the daily timer with the seconds from the current
  time to 00:00:00 (the negated second of the day), plus 24 hours when that difference
  is negative: a delay of less than a day that ends on a midnight. \<^verbatim>\<open>daily_update\<close>
  restarts the timer with exactly 86400 seconds whenever the refresh returns. At 23:59:50
  the first delay is 10 seconds.
\<close>

theorem daily_timer_delays:
  "(let sod = time_of (clock env (clock_reads s)) div 1000;
        naive = QTime_secsTo (time_of (clock env (clock_reads s))) 0;
        delay = (if naive < 0 then naive + 86400 else naive)
    in naive = - sod
       \<and> daily_timer (setup_timers env s) = Some (delay * 1000)
       \<and> 0 \<le> delay \<and> delay < 86400 \<and> (sod + delay) mod 86400 = 0)
   \<and> daily_update fuel env s =
       map_option (\<lambda>s1. s1\<lparr>daily_timer := Some 86400000\<rparr>) (update_data fuel env s)
   \<and> daily_timer (setup_timers (env_fixed (QDateTime_of d (Some ((23 * 3600 + 59 * 60 + 50) * 1000)))) s)
       = Some (10 * 1000)"
proof -
  let ?t = "time_of (clock env (clock_reads s))"
  have range: "0 \<le> ?t div 1000" "?t div 1000 < 86400"
    using time_of_range [of "clock env (clock_reads s)"]
    by (simp_all add: pos_imp_zdiv_nonneg_iff) linarith
  have first: "let sod = ?t div 1000; naive = QTime_secsTo ?t 0;
        delay = (if naive < 0 then naive + 86400 else naive)
    in naive = - sod
       \<and> daily_timer (setup_timers env s) = Some (delay * 1000)
       \<and> 0 \<le> delay \<and> delay < 86400 \<and> (sod + delay) mod 86400 = 0"
    using range
    by (auto simp add: Let_def setup_timers_def currentTime_def QTime_secsTo_def)
  have again: "daily_update fuel env s =
       map_option (\<lambda>s1. s1\<lparr>daily_timer := Some 86400000\<rparr>) (update_data fuel env s)"
    by (simp add: daily_update_def split: option.split)
  have "time_of (QDateTime_of d (Some ((23 * 3600 + 59 * 60 + 50) * 1000))) = 86390000"
    by (simp add: time_of_def QDateTime_of_def)
  then have example:
    "daily_timer (setup_timers (env_fixed (QDateTime_of d (Some ((23 * 3600 + 59 * 60 + 50) * 1000)))) s)
       = Some (10 * 1000)"
    by (simp add: setup_timers_def currentTime_def QTime_secsTo_def env_fixed_def)
  from first again example show ?thesis by blast
qed

section \<open>Resolution of the next prayer\<close>

text \<open>
  What the loop keeps in its accumulator: an entry that is later than \<open>now\<close>.
  The result is then the accumulator or an entry of the list, later than \<open>now\<close>, and no
  later than any entry of the list that is later than \<open>now\<close>.
\<close>

lemma scan_prayers_None:
  "scan_prayers now pts acc = None \<longleftrightarrow> acc = None \<and> (\<forall>(p, t) \<in> set pts. \<not> now < t)"
  by (induction pts arbitrary: acc) (auto split: option.splits if_splits)

lemma scan_prayers_Some:
  assumes "scan_prayers now pts acc = Some (p, t)"
  shows "(acc = Some (p, t) \<or> ((p, t) \<in> set pts \<and> now < t))
         \<and> (\<forall>(q, u) \<in> set pts. now < u \<longrightarrow> t \<le> u)
         \<and> (\<forall>q u. acc = Some (q, u) \<longrightarrow> t \<le> u)"
  using assms
proof (induction pts arbitrary: acc)
  case Nil
  then show ?case by simp
next
  case (Cons e pts)
  obtain q u where e: "e = (q, u)" by (cases e)
  let ?acc = "if now < u then
          (case acc of None \<Rightarrow> Some (q, u)
           | Some (found, found_time) \<Rightarrow> if u < found_time then Some (q, u) else acc)
        else acc"
  from Cons.prems e have "scan_prayers now pts ?acc = Some (p, t)" by simp
  from Cons.IH [OF this] show ?case
    unfolding e by (auto split: if_splits option.splits)
qed

lemma update_next_prayer_found:
  assumes "scan_prayers (clock env (clock_reads s)) (prayer_times s) None = Some (p, t)"
  shows "update_next_prayer fuel env s =
           update_countdown fuel env
             (s\<lparr>clock_reads := Suc (clock_reads s), next_prayer := Some p,
                next_prayer_time := Some t, next_prayer_label := ''Next: '' @ p\<rparr>)"
  using assms
  by (simp add: update_next_prayer.simps currentDateTime_def store_next_prayer_def)

text \<open>
  Claim C1. When some stored timestamp is later than the clock reading \<open>now\<close> taken by
  \<^verbatim>\<open>update_next_prayer\<close>, the scan selects a stored entry later than \<open>now\<close> whose
  timestamp is the smallest among the stored timestamps later than \<open>now\<close>; its name and
  timestamp are stored as the next prayer, the label is set and the countdown is updated
  on that state. When the selected timestamp is still at least a second away at the
  countdown's own clock reading, the call returns with that next prayer stored.
\<close>

theorem next_prayer_is_earliest_future:
  assumes "\<exists>(p, t) \<in> set (prayer_times s). clock env (clock_reads s) < t"
  shows "\<exists>p t. (p, t) \<in> set (prayer_times s) \<and> clock env (clock_reads s) < t
           \<and> (\<forall>(q, u) \<in> set (prayer_times s). clock env (clock_reads s) < u \<longrightarrow> t \<le> u)
           \<and> scan_prayers (clock env (clock_reads s)) (prayer_times s) None = Some (p, t)
           \<and> update_next_prayer fuel env s =
               update_countdown fuel env
                 (s\<lparr>clock_reads := Suc (clock_reads s), next_prayer := Some p,
                    next_prayer_time := Some t, next_prayer_label := ''Next: '' @ p\<rparr>)
           \<and> (0 < secsTo (clock env (Suc (clock_reads s))) t \<longrightarrow>
                (\<exists>s'. update_next_prayer fuel env s = Some s'
                   \<and> next_prayer s' = Some p \<and> next_prayer_time s' = Some t))"
proof -
  let ?now = "clock env (clock_reads s)"
  from assms have "scan_prayers ?now (prayer_times s) None \<noteq> None"
    by (auto simp add: scan_prayers_None)
  then obtain p t where found: "scan_prayers ?now (prayer_times s) None = Some (p, t)"
    by (cases "scan_prayers ?now (prayer_times s) None") auto
  from scan_prayers_Some [OF found]
  have member: "(p, t) \<in> set (prayer_times s)" and future: "?now < t"
    and least: "\<forall>(q, u) \<in> set (prayer_times s). ?now < u \<longrightarrow> t \<le> u"
    by auto
  let ?s1 = "s\<lparr>clock_reads := Suc (clock_reads s), next_prayer := Some p,
                next_prayer_time := Some t, next_prayer_label := ''Next: '' @ p\<rparr>"
  have stored: "update_next_prayer fuel env s = update_countdown fuel env ?s1"
    by (rule update_next_prayer_found [OF found])
  have returns: "0 < secsTo (clock env (Suc (clock_reads s))) t \<longrightarrow>
                (\<exists>s'. update_next_prayer fuel env s = Some s'
                   \<and> next_prayer s' = Some p \<and> next_prayer_time s' = Some t)"
  proof
    assume "0 < secsTo (clock env (Suc (clock_reads s))) t"
    then have "0 < secsTo (clock env (clock_reads ?s1)) t" by simp
    with update_countdown_display [of ?s1 t env fuel] stored
    show "\<exists>s'. update_next_prayer fuel env s = Some s'
                   \<and> next_prayer s' = Some p \<and> next_prayer_time s' = Some t"
      by simp
  qed
  from member future least found stored returns show ?thesis by blast
qed

theorem next_prayer_is_earliest_future_witness:
  "(\<exists>(p, t) \<in> set (prayer_times widget_day0).
       clock (env_fixed 21600000) (clock_reads widget_day0) < t)
   \<and> scan_prayers 21600000 (prayer_times widget_day0) None = Some (''Sunrise'', 23400000)
   \<and> (\<exists>s'. update_next_prayer 0 (env_fixed 21600000) widget_day0 = Some s'
          \<and> next_prayer s' = Some ''Sunrise'' \<and> next_prayer_time s' = Some 23400000)"
proof -
  have hyp: "\<exists>(p, t) \<in> set (prayer_times widget_day0).
       clock (env_fixed 21600000) (clock_reads widget_day0) < t"
    by (simp add: widget_day0_def env_fixed_def)
  have now: "clock (env_fixed 21600000) k = 21600000" for k
    by (simp add: env_fixed_def)
  have scan: "scan_prayers 21600000 (prayer_times widget_day0) None = Some (''Sunrise'', 23400000)"
    by (simp add: widget_day0_def)
  have left: "0 < secsTo 21600000 23400000"
    by (simp add: secsTo_def)
  from next_prayer_is_earliest_future [OF hyp, of 0] obtain p t where
    selected: "scan_prayers (clock (env_fixed 21600000) (clock_reads widget_day0))
                 (prayer_times widget_day0) None = Some (p, t)"
    and returns: "0 < secsTo (clock (env_fixed 21600000) (Suc (clock_reads widget_day0))) t \<longrightarrow>
                (\<exists>s'. update_next_prayer 0 (env_fixed 21600000) widget_day0 = Some s'
                   \<and> next_prayer s' = Some p \<and> next_prayer_time s' = Some t)"
    by blast
  from selected scan have "p = ''Sunrise''" and "t = 23400000"
    by (simp_all add: now)
  with returns left
  have "\<exists>s'. update_next_prayer 0 (env_fixed 21600000) widget_day0 = Some s'
          \<and> next_prayer s' = Some ''Sunrise'' \<and> next_prayer_time s' = Some 23400000"
    by (simp add: now)
  with hyp scan show ?thesis by blast
qed

lemma update_next_prayer_fallback:
  assumes "\<forall>(p, t) \<in> set (prayer_times s). \<not> clock env (clock_reads s) < t"
  shows "update_next_prayer fuel env s =
           (case tomorrow_fajr_fallback env (s\<lparr>clock_reads := Suc (clock_reads s)\<rparr>) of
              (None, s2) \<Rightarrow> Some s2
            | (Some t, s2) \<Rightarrow>
                update_countdown fuel env (store_next_prayer ''Fajr (Tomorrow)'' t s2))"
proof -
  from assms have "scan_prayers (clock env (clock_reads s)) (prayer_times s) None = None"
    by (simp add: scan_prayers_None)
  then show ?thesis
    by (simp add: update_next_prayer.simps currentDateTime_def)
qed

lemma tomorrow_fajr_fallback_sends:
  "requests (snd (tomorrow_fajr_fallback env s)) =
     requests s @ [(date_of (clock env (clock_reads s)) + 1, False)]"
  by (simp add: tomorrow_fajr_fallback_def currentDate_def requests_get_def Let_def
        split: response.split option.split)

text \<open>
  Claim C2. When no stored timestamp is later than the clock reading taken by
  \<^verbatim>\<open>update_next_prayer\<close>, the request for tomorrow's date is sent, and when its answer
  has code 200 and a Fajr time, the next prayer is stored under the name
  \<^verbatim>\<open>Fajr (Tomorrow)\<close> with the timestamp made of tomorrow's date and that clock time, and
  the countdown is updated on that state. When that timestamp is still at least a second
  away at the countdown's own clock reading, the call returns with that next prayer
  stored.
\<close>

theorem fallback_to_tomorrow_fajr:
  assumes "\<forall>(p, t) \<in> set (prayer_times s). \<not> clock env (clock_reads s) < t"
    and "tomorrow = date_of (clock env (Suc (clock_reads s))) + 1"
    and "provider env (length (requests s)) (tomorrow, False) = Reply 200 timings"
    and "map_of timings ''Fajr'' = Some fajr_time"
  shows "update_next_prayer fuel env s =
           update_countdown fuel env
             (s\<lparr>clock_reads := Suc (Suc (clock_reads s)),
                requests := requests s @ [(tomorrow, False)],
                next_prayer := Some ''Fajr (Tomorrow)'',
                next_prayer_time := Some (QDateTime_of tomorrow (QTime_fromString fajr_time)),
                next_prayer_label := ''Next: Fajr (Tomorrow)''\<rparr>)
         \<and> (0 < secsTo (clock env (Suc (Suc (clock_reads s))))
                  (QDateTime_of tomorrow (QTime_fromString fajr_time)) \<longrightarrow>
              (\<exists>s'. update_next_prayer fuel env s = Some s'
                 \<and> next_prayer s' = Some ''Fajr (Tomorrow)''
                 \<and> next_prayer_time s' = Some (QDateTime_of tomorrow (QTime_fromString fajr_time))
                 \<and> requests s' = requests s @ [(tomorrow, False)]))"
proof -
  let ?t = "QDateTime_of tomorrow (QTime_fromString fajr_time)"
  let ?s2 = "s\<lparr>clock_reads := Suc (Suc (clock_reads s)),
                requests := requests s @ [(tomorrow, False)],
                next_prayer := Some ''Fajr (Tomorrow)'',
                next_prayer_time := Some ?t,
                next_prayer_label := ''Next: Fajr (Tomorrow)''\<rparr>"
  have "tomorrow_fajr_fallback env (s\<lparr>clock_reads := Suc (clock_reads s)\<rparr>) =
          (Some ?t, s\<lparr>clock_reads := Suc (Suc (clock_reads s)),
                      requests := requests s @ [(tomorrow, False)]\<rparr>)"
    using assms(2-4)
    by (simp add: tomorrow_fajr_fallback_def currentDate_def requests_get_def Let_def)
  with update_next_prayer_fallback [OF assms(1), of fuel]
  have stored: "update_next_prayer fuel env s = update_countdown fuel env ?s2"
    by (simp add: store_next_prayer_def)
  have "0 < secsTo (clock env (Suc (Suc (clock_reads s)))) ?t \<longrightarrow>
              (\<exists>s'. update_next_prayer fuel env s = Some s'
                 \<and> next_prayer s' = Some ''Fajr (Tomorrow)''
                 \<and> next_prayer_time s' = Some ?t
                 \<and> requests s' = requests s @ [(tomorrow, False)])"
  proof
    assume "0 < secsTo (clock env (Suc (Suc (clock_reads s)))) ?t"
    then have "0 < secsTo (clock env (clock_reads ?s2)) ?t" by simp
    with update_countdown_display [of ?s2 ?t env fuel] stored
    show "\<exists>s'. update_next_prayer fuel env s = Some s'
                 \<and> next_prayer s' = Some ''Fajr (Tomorrow)''
                 \<and> next_prayer_time s' = Some ?t
                 \<and> requests s' = requests s @ [(tomorrow, False)]"
      by simp
  qed
  with stored show ?thesis by blast
qed

theorem fallback_to_tomorrow_fajr_witness:
  "scan_prayers (clock (env_fixed 82800000) (clock_reads widget_evening))
     (prayer_times widget_evening) None = None
   \<and> provider (env_fixed 82800000) (length (requests widget_evening)) (1, False)
       = Reply 200 example_timings
   \<and> map_of example_timings ''Fajr'' = Some ''05:00''
   \<and> map_option next_prayer (update_next_prayer 0 (env_fixed 82800000) widget_evening)
       = Some (Some ''Fajr (Tomorrow)'')
   \<and> map_option next_prayer_time (update_next_prayer 0 (env_fixed 82800000) widget_evening)
       = Some (Some 104400000)
   \<and> map_option requests (update_next_prayer 0 (env_fixed 82800000) widget_evening)
       = Some [(1, False)]"
proof -
  have now: "clock (env_fixed 82800000) k = 82800000" for k
    by (simp add: env_fixed_def)
  have h1: "\<forall>(p, t) \<in> set (prayer_times widget_evening).
       \<not> clock (env_fixed 82800000) (clock_reads widget_evening) < t"
    by (simp add: widget_evening_def now)
  have h2: "(1::int) = date_of (clock (env_fixed 82800000) (Suc (clock_reads widget_evening))) + 1"
    by (simp add: now date_of_def)
  have h3: "provider (env_fixed 82800000) (length (requests widget_evening)) (1, False)
       = Reply 200 example_timings"
    by (simp add: env_fixed_def)
  have h4: "map_of example_timings ''Fajr'' = Some ''05:00''"
    by (simp add: example_timings_def)
  have t: "QDateTime_of 1 (QTime_fromString ''05:00'') = 104400000"
    by code_simp
  have none: "requests widget_evening = []"
    by (simp add: widget_evening_def init_ui_def)
  from fallback_to_tomorrow_fajr [OF h1 h2 h3 h4, of 0, unfolded t, THEN conjunct2]
  have "\<exists>s'. update_next_prayer 0 (env_fixed 82800000) widget_evening = Some s'
                 \<and> next_prayer s' = Some ''Fajr (Tomorrow)''
                 \<and> next_prayer_time s' = Some 104400000
                 \<and> requests s' = [(1, False)]"
    by (simp add: t now none secsTo_def)
  then have "map_option next_prayer (update_next_prayer 0 (env_fixed 82800000) widget_evening)
       = Some (Some ''Fajr (Tomorrow)'')"
    and "map_option next_prayer_time (update_next_prayer 0 (env_fixed 82800000) widget_evening)
       = Some (Some 104400000)"
    and "map_option requests (update_next_prayer 0 (env_fixed 82800000) widget_evening)
       = Some [(1, False)]"
    by auto
  moreover from h1
  have "scan_prayers (clock (env_fixed 82800000) (clock_reads widget_evening))
     (prayer_times widget_evening) None = None"
    by (simp add: scan_prayers_None)
  ultimately show ?thesis using h3 h4 by blast
qed

text \<open>
  Counterexample to claim C3, which says that every \<open>now\<close> at or after today's Isha leads to the fallback. The
  stored Midnight is the midpoint between Isha and tomorrow's Fajr, hence later than Isha:
  at 21:00, with Isha at 20:00 and tomorrow's Fajr at 05:00, the refresh stores Isha at
  20:00 of day 0 and selects Midnight at 00:30 of day 1.
\<close>

theorem isha_passed_selects_midnight:
  "map_of (prayer_times (snd (fetch_prayer_times (env_fixed 75600000) init_ui))) ''Isha''
     = Some 72000000
   \<and> (72000000 :: int) \<le> clock (env_fixed 75600000) 10
   \<and> scan_prayers (clock (env_fixed 75600000) 10)
        (prayer_times (snd (fetch_prayer_times (env_fixed 75600000) init_ui))) None
       = Some (''Midnight'', 88200000)
   \<and> map_option next_prayer (update_prayer_times 0 (env_fixed 75600000) init_ui)
       = Some (Some ''Midnight'')
   \<and> map_option requests (update_prayer_times 0 (env_fixed 75600000) init_ui)
       = Some [(0, True), (1, True)]"
proof -
  have a: "map_of (prayer_times (snd (fetch_prayer_times (env_fixed 75600000) init_ui))) ''Isha''
     = Some 72000000"
    by code_simp
  have b: "(72000000 :: int) \<le> clock (env_fixed 75600000) 10"
    by (simp add: env_fixed_def)
  have c: "scan_prayers (clock (env_fixed 75600000) 10)
        (prayer_times (snd (fetch_prayer_times (env_fixed 75600000) init_ui))) None
       = Some (''Midnight'', 88200000)"
    by code_simp
  have d: "map_option next_prayer (update_prayer_times 0 (env_fixed 75600000) init_ui)
       = Some (Some ''Midnight'')"
    by code_simp
  have e: "map_option requests (update_prayer_times 0 (env_fixed 75600000) init_ui)
       = Some [(0, True), (1, True)]"
    by code_simp
  from a b c d e show ?thesis by blast
qed

text \<open>
  Claim C3, amended. When the clock reading \<open>now\<close> taken by \<^verbatim>\<open>update_next_prayer\<close> is
  at or after today's Isha and at or after the stored Midnight, the five earlier prayers
  being no later than Isha, no entry of today's set is selected: the scan finds nothing,
  the request for tomorrow's date is sent, and the call continues with the fallback.
\<close>

theorem after_isha_and_midnight_falls_back:
  assumes "prayer_times s =
             [(''Fajr'', fajr), (''Sunrise'', sunrise), (''Dhuhr'', dhuhr), (''Asr'', asr),
              (''Maghrib'', maghrib), (''Isha'', isha), (''Midnight'', midnight)]"
    and "fajr \<le> isha" and "sunrise \<le> isha" and "dhuhr \<le> isha" and "asr \<le> isha"
    and "maghrib \<le> isha"
    and "isha \<le> clock env (clock_reads s)"
    and "midnight \<le> clock env (clock_reads s)"
  shows "scan_prayers (clock env (clock_reads s)) (prayer_times s) None = None
         \<and> update_next_prayer fuel env s =
             (case tomorrow_fajr_fallback env (s\<lparr>clock_reads := Suc (clock_reads s)\<rparr>) of
                (None, s2) \<Rightarrow> Some s2
              | (Some t, s2) \<Rightarrow>
                  update_countdown fuel env (store_next_prayer ''Fajr (Tomorrow)'' t s2))
         \<and> requests (snd (tomorrow_fajr_fallback env (s\<lparr>clock_reads := Suc (clock_reads s)\<rparr>)))
             = requests s @ [(date_of (clock env (Suc (clock_reads s))) + 1, False)]"
proof -
  from assms have passed: "\<forall>(p, t) \<in> set (prayer_times s). \<not> clock env (clock_reads s) < t"
    by auto
  then have "scan_prayers (clock env (clock_reads s)) (prayer_times s) None = None"
    by (simp add: scan_prayers_None)
  moreover note update_next_prayer_fallback [OF passed, of fuel]
  moreover have "requests (snd (tomorrow_fajr_fallback env (s\<lparr>clock_reads := Suc (clock_reads s)\<rparr>)))
             = requests s @ [(date_of (clock env (Suc (clock_reads s))) + 1, False)]"
    by (simp add: tomorrow_fajr_fallback_sends)
  ultimately show ?thesis by blast
qed

theorem after_isha_and_midnight_falls_back_witness:
  "prayer_times widget_evening =
     [(''Fajr'', 18000000), (''Sunrise'', 23400000), (''Dhuhr'', 44100000),
      (''Asr'', 55800000), (''Maghrib'', 65400000), (''Isha'', 72000000),
      (''Midnight'', 1800000)]
   \<and> (72000000 :: int) \<le> clock (env_fixed 82800000) (clock_reads widget_evening)
   \<and> (1800000 :: int) \<le> clock (env_fixed 82800000) (clock_reads widget_evening)
   \<and> scan_prayers (clock (env_fixed 82800000) (clock_reads widget_evening))
        (prayer_times widget_evening) None = None
   \<and> requests (snd (tomorrow_fajr_fallback (env_fixed 82800000)
        (widget_evening\<lparr>clock_reads := Suc (clock_reads widget_evening)\<rparr>))) = [(1, False)]"
proof -
  have now: "clock (env_fixed 82800000) k = 82800000" for k
    by (simp add: env_fixed_def)
  have h1: "prayer_times widget_evening =
     [(''Fajr'', 18000000), (''Sunrise'', 23400000), (''Dhuhr'', 44100000),
      (''Asr'', 55800000), (''Maghrib'', 65400000), (''Isha'', 72000000),
      (''Midnight'', 1800000)]"
    by (simp add: widget_evening_def)
  have h2: "(18000000 :: int) \<le> 72000000" and h3: "(23400000 :: int) \<le> 72000000"
    and h4: "(44100000 :: int) \<le> 72000000" and h5: "(55800000 :: int) \<le> 72000000"
    and h6: "(65400000 :: int) \<le> 72000000"
    by simp_all
  have h7: "(72000000 :: int) \<le> clock (env_fixed 82800000) (clock_reads widget_evening)"
    and h8: "(1800000 :: int) \<le> clock (env_fixed 82800000) (clock_reads widget_evening)"
    by (simp_all add: now)
  have none: "requests widget_evening = []"
    by (simp add: widget_evening_def init_ui_def)
  from after_isha_and_midnight_falls_back [OF h1 h2 h3 h4 h5 h6 h7 h8, of 0]
  have "scan_prayers (clock (env_fixed 82800000) (clock_reads widget_evening))
        (prayer_times widget_evening) None = None"
    and "requests (snd (tomorrow_fajr_fallback (env_fixed 82800000)
        (widget_evening\<lparr>clock_reads := Suc (clock_reads widget_evening)\<rparr>))) = [(1, False)]"
    by (simp_all add: now none date_of_def)
  with h1 h7 h8 show ?thesis by blast
qed

section \<open>Parsing and the midpoint Midnight\<close>


lemma digit_val_range: "is_digit c \<Longrightarrow> 0 \<le> digit_val c \<and> digit_val c \<le> 9"
  by (auto simp add: is_digit_def digit_val_def)

lemma QTime_fromString_five:
  assumes "QTime_fromString str = Some ms"
  shows "\<exists>h1 h2 c m1 m2. str = [h1, h2, c, m1, m2]"
proof (rule ccontr)
  assume "\<not> ?thesis"
  then have "QTime_fromString str = None"
    by (cases str rule: QTime_fromString.cases) simp_all
  with assms show False by simp
qed

lemma QTime_fromString_range:
  assumes "QTime_fromString str = Some ms"
  shows "0 \<le> ms \<and> ms < 86400000 \<and> ms mod 1000 = 0"
proof -
  from QTime_fromString_five [OF assms] obtain h1 h2 c m1 m2
    where str: "str = [h1, h2, c, m1, m2]" by blast
  define hh where "hh = 10 * digit_val h1 + digit_val h2"
  define mm where "mm = 10 * digit_val m1 + digit_val m2"
  from assms str have digits: "is_digit h1" "is_digit h2" "is_digit m1" "is_digit m2"
    and bounds: "hh < 24" "mm < 60" and ms: "ms = (hh * 60 + mm) * 60000"
    by (simp_all add: Let_def hh_def mm_def split: if_splits)
  from digits have nonneg: "0 \<le> hh" "0 \<le> mm"
    using digit_val_range [of h1] digit_val_range [of h2]
      digit_val_range [of m1] digit_val_range [of m2]
    by (simp_all add: hh_def mm_def)
  define k where "k = hh * 60 + mm"
  from bounds nonneg have "0 \<le> k" "k < 1440" by (simp_all add: k_def)
  moreover have "ms = k * 60000" by (simp add: ms k_def)
  ultimately show ?thesis by simp
qed

lemma QDateTime_of_parts:
  "date_of (QDateTime_of d (QTime_fromString str)) = d
   \<and> time_of (QDateTime_of d (QTime_fromString str)) = QDateTime_of 0 (QTime_fromString str)
   \<and> QDateTime_of d (QTime_fromString str) mod 1000 = 0"
proof -
  define ms where "ms = (case QTime_fromString str of None \<Rightarrow> 0 | Some ms \<Rightarrow> ms)"
  have range: "0 \<le> ms \<and> ms < 86400000 \<and> ms mod 1000 = 0"
  proof (cases "QTime_fromString str")
    case None
    then show ?thesis by (simp add: ms_def)
  next
    case (Some x)
    with QTime_fromString_range [OF Some] show ?thesis by (simp add: ms_def)
  qed
  have whole: "QDateTime_of d (QTime_fromString str) = ms + d * 86400000"
    and part: "QDateTime_of 0 (QTime_fromString str) = ms"
    by (simp_all add: QDateTime_of_def ms_def)
  have "(ms + d * 86400000) div 86400000 = d"
    using range by simp
  moreover have "(ms + d * 86400000) mod 86400000 = ms"
    using range by simp
  moreover have "(ms + d * 86400000) mod 1000 = 0"
  proof -
    have "d * 86400000 = (d * 86400) * 1000" by simp
    moreover have "(ms + (d * 86400) * 1000) mod 1000 = ms mod 1000"
      by (rule mod_mult_self1)
    ultimately show ?thesis using range by (simp add: mult.commute)
  qed
  ultimately show ?thesis
    by (simp add: whole part date_of_def time_of_def)
qed

lemma time_to_datetime_eq:
  "time_to_datetime env str s =
     (QDateTime_of (date_of (clock env (clock_reads s))) (QTime_fromString str),
      s\<lparr>clock_reads := Suc (clock_reads s)\<rparr>)"
  by (simp add: time_to_datetime_def currentDate_def)

lemma extract_times_seven:
  assumes "map_of timings ''Fajr'' = Some fajr" and "map_of timings ''Sunrise'' = Some sunrise"
    and "map_of timings ''Dhuhr'' = Some dhuhr" and "map_of timings ''Asr'' = Some asr"
    and "map_of timings ''Maghrib'' = Some maghrib" and "map_of timings ''Isha'' = Some isha"
    and "map_of timings ''Midnight'' = Some midnight"
  shows "extract_times env timings prayer_names s =
     (Some [(''Fajr'', QDateTime_of (date_of (clock env (clock_reads s))) (QTime_fromString fajr)),
            (''Sunrise'', QDateTime_of (date_of (clock env (clock_reads s + 1))) (QTime_fromString sunrise)),
            (''Dhuhr'', QDateTime_of (date_of (clock env (clock_reads s + 2))) (QTime_fromString dhuhr)),
            (''Asr'', QDateTime_of (date_of (clock env (clock_reads s + 3))) (QTime_fromString asr)),
            (''Maghrib'', QDateTime_of (date_of (clock env (clock_reads s + 4))) (QTime_fromString maghrib)),
            (''Isha'', QDateTime_of (date_of (clock env (clock_reads s + 5))) (QTime_fromString isha)),
            (''Midnight'', QDateTime_of (date_of (clock env (clock_reads s + 6))) (QTime_fromString midnight))],
      s\<lparr>clock_reads := clock_reads s + 7\<rparr>)"
  using assms
  by (simp add: prayer_names_def time_to_datetime_eq eval_nat_numeral)

lemma fetch_prayer_times_parsed:
  assumes "provider env (length (requests s)) (date_of (clock env (clock_reads s)), True)
             = Reply 200 timings"
    and "map_of timings ''Fajr'' = Some fajr" and "map_of timings ''Sunrise'' = Some sunrise"
    and "map_of timings ''Dhuhr'' = Some dhuhr" and "map_of timings ''Asr'' = Some asr"
    and "map_of timings ''Maghrib'' = Some maghrib" and "map_of timings ''Isha'' = Some isha"
    and "map_of timings ''Midnight'' = Some midnight"
  shows "fetch_prayer_times env s =
     adjust_midnight env
       (s\<lparr>requests := requests s @ [(date_of (clock env (clock_reads s)), True)],
          clock_reads := clock_reads s + 8,
          prayer_times :=
            [(''Fajr'', QDateTime_of (date_of (clock env (clock_reads s + 1))) (QTime_fromString fajr)),
             (''Sunrise'', QDateTime_of (date_of (clock env (clock_reads s + 2))) (QTime_fromString sunrise)),
             (''Dhuhr'', QDateTime_of (date_of (clock env (clock_reads s + 3))) (QTime_fromString dhuhr)),
             (''Asr'', QDateTime_of (date_of (clock env (clock_reads s + 4))) (QTime_fromString asr)),
             (''Maghrib'', QDateTime_of (date_of (clock env (clock_reads s + 5))) (QTime_fromString maghrib)),
             (''Isha'', QDateTime_of (date_of (clock env (clock_reads s + 6))) (QTime_fromString isha)),
             (''Midnight'', QDateTime_of (date_of (clock env (clock_reads s + 7))) (QTime_fromString midnight))]\<rparr>)"
proof -
  let ?s2 = "s\<lparr>clock_reads := Suc (clock_reads s),
               requests := requests s @ [(date_of (clock env (clock_reads s)), True)]\<rparr>"
  have reads: "clock_reads ?s2 + k = clock_reads s + Suc k" for k by simp
  note parsed = extract_times_seven [OF assms(2-8), of env ?s2, unfolded reads]
  have "clock_reads ?s2 = clock_reads s + 1" by simp
  with parsed assms(1) show ?thesis
    by (simp add: fetch_prayer_times_def currentDate_def requests_get_def numeral_eq_Suc)
qed

lemma QDateTime_of_time_of:
  "QDateTime_of d (Some (time_of (QDateTime_of d' (QTime_fromString str))))
     = QDateTime_of d (QTime_fromString str)"
  using QDateTime_of_parts [of d' str]
  by (simp add: QDateTime_of_def split: option.split)

lemma adjust_midnight_available:
  assumes "map_of (prayer_times s) ''Isha'' = Some isha_time"
    and "provider env (length (requests s)) (date_of (clock env (clock_reads s)) + 1, True)
           = Reply 200 timings"
    and "map_of timings ''Fajr'' = Some str"
  shows "adjust_midnight env s =
     (Fetched,
      s\<lparr>requests := requests s @ [(date_of (clock env (clock_reads s)) + 1, True)],
        clock_reads := clock_reads s + 2,
        prayer_times :=
          AList.update ''Midnight''
            (addSecs isha_time
               (secsTo isha_time
                  (QDateTime_of (date_of (clock env (clock_reads s)) + 1) (QTime_fromString str))
                div 2))
            (prayer_times s)\<rparr>)"
  using assms
  by (simp add: adjust_midnight_def currentDate_def requests_get_def time_to_datetime_eq
        Let_def QDateTime_of_time_of)

lemma adjust_midnight_unavailable:
  assumes "case provider env (length (requests s)) (date_of (clock env (clock_reads s)) + 1, True) of
             Raises \<Rightarrow> True
           | Reply code timings \<Rightarrow> code \<noteq> 200 \<or> map_of timings ''Fajr'' = None"
  shows "prayer_times (snd (adjust_midnight env s)) = prayer_times s"
  using assms
  by (auto simp add: adjust_midnight_def currentDate_def requests_get_def Let_def
        split: option.splits response.splits)

lemma secsTo_exact:
  assumes "a mod 1000 = 0" and "b mod 1000 = 0"
  shows "1000 * secsTo a b = b - a"
proof -
  from assms have "(b - a) mod 1000 = 0" and "(a - b) mod 1000 = 0"
    by (simp_all add: mod_diff_eq [symmetric])
  then have "1000 * ((b - a) div 1000) = b - a" and "1000 * ((a - b) div 1000) = a - b"
    using mult_div_mod_eq [of 1000 "b - a"] mult_div_mod_eq [of 1000 "a - b"] by simp_all
  then show ?thesis by (simp add: secsTo_def)
qed

lemma extract_times_dates:
  assumes "extract_times env timings ks s = (Some pts, s')"
    and "\<forall>k < length ks. date_of (clock env (clock_reads s + k)) = d"
  shows "\<forall>(p, t) \<in> set pts. date_of t = d"
  using assms
proof (induction ks arbitrary: s pts)
  case Nil
  then show ?case by simp
next
  case (Cons k ks)
  from Cons.prems(1) obtain str where str: "map_of timings k = Some str"
    by (cases "map_of timings k") auto
  let ?s1 = "s\<lparr>clock_reads := Suc (clock_reads s)\<rparr>"
  let ?t = "QDateTime_of (date_of (clock env (clock_reads s))) (QTime_fromString str)"
  from Cons.prems(1) str obtain rest
    where rest: "extract_times env timings ks ?s1 = (Some rest, s')" and pts: "pts = (k, ?t) # rest"
    by (auto simp add: time_to_datetime_eq split: prod.splits option.splits)
  from Cons.prems(2) have "\<forall>j < length ks. date_of (clock env (clock_reads ?s1 + j)) = d"
    by auto
  from Cons.IH [OF rest this] have "\<forall>(p, t) \<in> set rest. date_of t = d" .
  moreover from Cons.prems(2) have "date_of (clock env (clock_reads s)) = d"
    by auto
  then have "date_of ?t = d"
    by (simp add: QDateTime_of_parts)
  ultimately show ?case by (simp add: pts)
qed

text \<open>
  Claim C4. After today's times are parsed, when the answer for tomorrow has code 200 and
  a Fajr time, the stored Midnight is Isha plus \<open>secsTo isha tomorrow_fajr div 2\<close> seconds,
  where \<open>div\<close> is the floor division of Python and \<open>secsTo\<close> is exact because both
  timestamps are whole seconds. When the answer for tomorrow raises, has another code or
  has no Fajr time, the stored Midnight is the provider's own value on today's date. With
  Isha at 20:00 of day 0 and tomorrow's Fajr at 05:00, Midnight is 00:30 of day 1.
\<close>

theorem midnight_is_midpoint:
  assumes "provider env (length (requests s)) (date_of (clock env (clock_reads s)), True)
             = Reply 200 timings"
    and "map_of timings ''Fajr'' = Some fajr" and "map_of timings ''Sunrise'' = Some sunrise"
    and "map_of timings ''Dhuhr'' = Some dhuhr" and "map_of timings ''Asr'' = Some asr"
    and "map_of timings ''Maghrib'' = Some maghrib" and "map_of timings ''Isha'' = Some isha"
    and "map_of timings ''Midnight'' = Some midnight"
    and "isha_time = QDateTime_of (date_of (clock env (clock_reads s + 6))) (QTime_fromString isha)"
    and "tomorrow = date_of (clock env (clock_reads s + 8)) + 1"
    and "tomorrow_data = provider env (Suc (length (requests s))) (tomorrow, True)"
    and "tomorrow_fajr = QDateTime_of tomorrow (QTime_fromString fajr_tomorrow)"
  shows "(tomorrow_data = Reply 200 timings_tomorrow
            \<and> map_of timings_tomorrow ''Fajr'' = Some fajr_tomorrow \<longrightarrow>
          map_of (prayer_times (snd (fetch_prayer_times env s))) ''Midnight''
            = Some (isha_time + 1000 * (secsTo isha_time tomorrow_fajr div 2))
          \<and> 1000 * secsTo isha_time tomorrow_fajr = tomorrow_fajr - isha_time)
         \<and> ((case tomorrow_data of
                Raises \<Rightarrow> True
              | Reply code ttimings \<Rightarrow> code \<noteq> 200 \<or> map_of ttimings ''Fajr'' = None) \<longrightarrow>
             map_of (prayer_times (snd (fetch_prayer_times env s))) ''Midnight''
               = Some (QDateTime_of (date_of (clock env (clock_reads s + 7)))
                         (QTime_fromString midnight)))
         \<and> map_of (prayer_times (snd (fetch_prayer_times (env_fixed 75600000) init_ui))) ''Isha''
             = Some (QDateTime_of 0 (QTime_fromString ''20:00''))
         \<and> map_of (prayer_times (snd (fetch_prayer_times (env_fixed 75600000) init_ui))) ''Midnight''
             = Some (QDateTime_of 1 (QTime_fromString ''00:30''))"
proof -
  let ?pts = "[(''Fajr'', QDateTime_of (date_of (clock env (clock_reads s + 1))) (QTime_fromString fajr)),
             (''Sunrise'', QDateTime_of (date_of (clock env (clock_reads s + 2))) (QTime_fromString sunrise)),
             (''Dhuhr'', QDateTime_of (date_of (clock env (clock_reads s + 3))) (QTime_fromString dhuhr)),
             (''Asr'', QDateTime_of (date_of (clock env (clock_reads s + 4))) (QTime_fromString asr)),
             (''Maghrib'', QDateTime_of (date_of (clock env (clock_reads s + 5))) (QTime_fromString maghrib)),
             (''Isha'', isha_time),
             (''Midnight'', QDateTime_of (date_of (clock env (clock_reads s + 7))) (QTime_fromString midnight))]"
  let ?s1 = "s\<lparr>requests := requests s @ [(date_of (clock env (clock_reads s)), True)],
          clock_reads := clock_reads s + 8, prayer_times := ?pts\<rparr>"
  have fetch: "fetch_prayer_times env s = adjust_midnight env ?s1"
    using fetch_prayer_times_parsed [OF assms(1-8)] by (simp add: assms(9))
  have isha: "map_of (prayer_times ?s1) ''Isha'' = Some isha_time"
    by simp
  have raw: "map_of (prayer_times ?s1) ''Midnight''
      = Some (QDateTime_of (date_of (clock env (clock_reads s + 7))) (QTime_fromString midnight))"
    by simp
  have data: "provider env (length (requests ?s1)) (date_of (clock env (clock_reads ?s1)) + 1, True)
      = tomorrow_data"
    by (simp add: assms(10,11))
  have available: "tomorrow_data = Reply 200 timings_tomorrow
            \<and> map_of timings_tomorrow ''Fajr'' = Some fajr_tomorrow \<longrightarrow>
          map_of (prayer_times (snd (fetch_prayer_times env s))) ''Midnight''
            = Some (isha_time + 1000 * (secsTo isha_time tomorrow_fajr div 2))
          \<and> 1000 * secsTo isha_time tomorrow_fajr = tomorrow_fajr - isha_time"
  proof
    assume ok: "tomorrow_data = Reply 200 timings_tomorrow
            \<and> map_of timings_tomorrow ''Fajr'' = Some fajr_tomorrow"
    with data have reply: "provider env (length (requests ?s1))
        (date_of (clock env (clock_reads ?s1)) + 1, True) = Reply 200 timings_tomorrow"
      by simp
    from ok have key: "map_of timings_tomorrow ''Fajr'' = Some fajr_tomorrow" by simp
    have "snd (adjust_midnight env ?s1) =
        ?s1\<lparr>requests := requests ?s1 @ [(date_of (clock env (clock_reads ?s1)) + 1, True)],
          clock_reads := clock_reads ?s1 + 2,
          prayer_times :=
            AList.update ''Midnight''
              (addSecs isha_time
               (secsTo isha_time
                  (QDateTime_of (date_of (clock env (clock_reads ?s1)) + 1) (QTime_fromString fajr_tomorrow))
                div 2))
            (prayer_times ?s1)\<rparr>"
      by (subst adjust_midnight_available [OF isha reply key]) (rule snd_conv)
    then have "prayer_times (snd (adjust_midnight env ?s1)) =
        AList.update ''Midnight''
          (addSecs isha_time (secsTo isha_time tomorrow_fajr div 2)) ?pts"
      by (simp add: assms(10,12))
    then have "map_of (prayer_times (snd (adjust_midnight env ?s1))) ''Midnight''
            = Some (isha_time + 1000 * (secsTo isha_time tomorrow_fajr div 2))"
      by (simp only: update_conv' addSecs_def fun_upd_same)
    moreover have "1000 * secsTo isha_time tomorrow_fajr = tomorrow_fajr - isha_time"
      by (rule secsTo_exact) (simp_all add: assms(9,12) QDateTime_of_parts)
    ultimately show "map_of (prayer_times (snd (fetch_prayer_times env s))) ''Midnight''
            = Some (isha_time + 1000 * (secsTo isha_time tomorrow_fajr div 2))
          \<and> 1000 * secsTo isha_time tomorrow_fajr = tomorrow_fajr - isha_time"
      by (simp add: fetch)
  qed
  have unavailable: "(case tomorrow_data of
                Raises \<Rightarrow> True
              | Reply code ttimings \<Rightarrow> code \<noteq> 200 \<or> map_of ttimings ''Fajr'' = None) \<longrightarrow>
             map_of (prayer_times (snd (fetch_prayer_times env s))) ''Midnight''
               = Some (QDateTime_of (date_of (clock env (clock_reads s + 7)))
                         (QTime_fromString midnight))"
  proof
    assume "case tomorrow_data of
                Raises \<Rightarrow> True
              | Reply code ttimings \<Rightarrow> code \<noteq> 200 \<or> map_of ttimings ''Fajr'' = None"
    with data have "case provider env (length (requests ?s1))
          (date_of (clock env (clock_reads ?s1)) + 1, True) of
                Raises \<Rightarrow> True
              | Reply code ttimings \<Rightarrow> code \<noteq> 200 \<or> map_of ttimings ''Fajr'' = None"
      by simp
    from adjust_midnight_unavailable [OF this] raw
    show "map_of (prayer_times (snd (fetch_prayer_times env s))) ''Midnight''
               = Some (QDateTime_of (date_of (clock env (clock_reads s + 7)))
                         (QTime_fromString midnight))"
      by (simp add: fetch)
  qed
  have example_isha:
    "map_of (prayer_times (snd (fetch_prayer_times (env_fixed 75600000) init_ui))) ''Isha''
             = Some (QDateTime_of 0 (QTime_fromString ''20:00''))"
    by code_simp
  have example_midnight:
    "map_of (prayer_times (snd (fetch_prayer_times (env_fixed 75600000) init_ui))) ''Midnight''
             = Some (QDateTime_of 1 (QTime_fromString ''00:30''))"
    by code_simp
  from available unavailable example_isha example_midnight show ?thesis by blast
qed

theorem midnight_is_midpoint_witness:
  "map_of (prayer_times (snd (fetch_prayer_times (env_fixed 75600000) init_ui))) ''Midnight''
     = Some 88200000
   \<and> 1000 * secsTo 72000000 104400000 = 104400000 - 72000000
   \<and> map_of (prayer_times (snd (fetch_prayer_times (env_today_only 75600000) init_ui))) ''Midnight''
       = Some 1800000"
proof -
  have keys: "map_of example_timings ''Fajr'' = Some ''05:00''"
    "map_of example_timings ''Sunrise'' = Some ''06:30''"
    "map_of example_timings ''Dhuhr'' = Some ''12:15''"
    "map_of example_timings ''Asr'' = Some ''15:30''"
    "map_of example_timings ''Maghrib'' = Some ''18:10''"
    "map_of example_timings ''Isha'' = Some ''20:00''"
    "map_of example_timings ''Midnight'' = Some ''00:30''"
    by (simp_all add: example_timings_def)
  have isha: "QDateTime_of 0 (QTime_fromString ''20:00'') = 72000000" by code_simp
  have fajr: "QDateTime_of 1 (QTime_fromString ''05:00'') = 104400000" by code_simp
  have raw: "QDateTime_of 0 (QTime_fromString ''00:30'') = 1800000" by code_simp
  have half: "secsTo 72000000 104400000 div 2 = 16200" by (simp add: secsTo_def)
  have one: "(0::int) + 1 = 1" by simp
  have day: "date_of (clock (env_fixed 75600000) k) = 0" for k
    by (simp add: env_fixed_def date_of_def)
  have today: "provider (env_fixed 75600000) (length (requests init_ui))
      (date_of (clock (env_fixed 75600000) (clock_reads init_ui)), True) = Reply 200 example_timings"
    by (simp add: env_fixed_def)
  have tomorrow: "provider (env_fixed 75600000) (Suc (length (requests init_ui))) (1, True)
      = Reply 200 example_timings"
    by (simp add: env_fixed_def)
  note available =
    midnight_is_midpoint [where env = "env_fixed 75600000" and s = init_ui
      and fajr_tomorrow = "''05:00''" and timings_tomorrow = example_timings,
      OF today keys refl refl refl refl, THEN conjunct1,
      unfolded day one tomorrow isha fajr]
  then have a: "map_of (prayer_times (snd (fetch_prayer_times (env_fixed 75600000) init_ui)))
      ''Midnight'' = Some 88200000"
    and b: "1000 * secsTo 72000000 104400000 = 104400000 - 72000000"
    using keys(1) by (simp_all add: half del: QTime_fromString.simps)
  have day': "date_of (clock (env_today_only 75600000) k) = 0" for k
    by (simp add: env_today_only_def date_of_def)
  have today': "provider (env_today_only 75600000) (length (requests init_ui))
      (date_of (clock (env_today_only 75600000) (clock_reads init_ui)), True)
      = Reply 200 example_timings"
    by (simp add: env_today_only_def)
  have tomorrow': "provider (env_today_only 75600000) (Suc (length (requests init_ui))) (1, True)
      = Reply 500 []"
    by (simp add: env_today_only_def date_of_def)
  note unavailable =
    midnight_is_midpoint [where env = "env_today_only 75600000" and s = init_ui,
      OF today' keys refl refl refl refl, THEN conjunct2, THEN conjunct1,
      unfolded day' one tomorrow' raw]
  then have c: "map_of (prayer_times (snd (fetch_prayer_times (env_today_only 75600000) init_ui)))
      ''Midnight'' = Some 1800000"
    by (simp del: QTime_fromString.simps)
  from a b c show ?thesis by blast
qed

text \<open>
  Claim C10. \<^verbatim>\<open>time_to_datetime\<close> puts every string, a valid clock time or not, on the
  date of its own clock reading. Hence, when the seven readings of the dictionary literal
  fall on one date, every entry of the freshly parsed set is on that date, the provider's
  Midnight included; the first parse of tomorrow's Fajr is the same function. The string
  \<^verbatim>\<open>00:30\<close> is thirty minutes after the start of today, which has passed whenever the
  time of day is 00:30 or later.
\<close>

theorem time_to_datetime_is_today:
  "date_of (fst (time_to_datetime env str s)) = date_of (clock env (clock_reads s))
   \<and> (extract_times env timings prayer_names s = (Some pts, s')
        \<and> (\<forall>k < 7. date_of (clock env (clock_reads s + k)) = today) \<longrightarrow>
       (\<forall>(p, t) \<in> set pts. date_of t = today))
   \<and> fst (time_to_datetime env ''00:30'' s)
       = date_of (clock env (clock_reads s)) * msecs_per_day + 30 * 60000
   \<and> (30 * 60000 \<le> time_of (clock env (clock_reads s)) \<longrightarrow>
       fst (time_to_datetime env ''00:30'' s) \<le> clock env (clock_reads s))"
proof -
  let ?now = "clock env (clock_reads s)"
  have first: "date_of (fst (time_to_datetime env str s)) = date_of ?now"
    by (simp add: time_to_datetime_eq QDateTime_of_parts)
  have all: "extract_times env timings prayer_names s = (Some pts, s')
        \<and> (\<forall>k < 7. date_of (clock env (clock_reads s + k)) = today) \<longrightarrow>
       (\<forall>(p, t) \<in> set pts. date_of t = today)"
  proof
    assume h: "extract_times env timings prayer_names s = (Some pts, s')
        \<and> (\<forall>k < 7. date_of (clock env (clock_reads s + k)) = today)"
    have "length prayer_names = 7" by (simp add: prayer_names_def)
    with h have "\<forall>k < length prayer_names. date_of (clock env (clock_reads s + k)) = today"
      by simp
    with h show "\<forall>(p, t) \<in> set pts. date_of t = today"
      using extract_times_dates [of env timings prayer_names s pts s' today] by blast
  qed
  have half_past: "QTime_fromString ''00:30'' = Some (30 * 60000)" by code_simp
  have raw: "fst (time_to_datetime env ''00:30'' s) = date_of ?now * msecs_per_day + 30 * 60000"
    by (simp only: time_to_datetime_eq fst_conv half_past QDateTime_of_def option.case)
  have split: "?now = date_of ?now * msecs_per_day + time_of ?now"
    by (simp add: date_of_def time_of_def)
  have passed: "30 * 60000 \<le> time_of ?now \<longrightarrow> fst (time_to_datetime env ''00:30'' s) \<le> ?now"
  proof
    assume "30 * 60000 \<le> time_of ?now"
    then have "date_of ?now * msecs_per_day + 30 * 60000
        \<le> date_of ?now * msecs_per_day + time_of ?now"
      by simp
    with split raw show "fst (time_to_datetime env ''00:30'' s) \<le> ?now" by simp
  qed
  from first all raw passed show ?thesis by blast
qed

theorem time_to_datetime_is_today_witness:
  "fst (extract_times (env_fixed 75600000) example_timings prayer_names init_ui)
     = Some [(''Fajr'', 18000000), (''Sunrise'', 23400000), (''Dhuhr'', 44100000),
             (''Asr'', 55800000), (''Maghrib'', 65400000), (''Isha'', 72000000),
             (''Midnight'', 1800000)]
   \<and> date_of 18000000 = 0 \<and> date_of 72000000 = 0 \<and> date_of 1800000 = 0
   \<and> time_of (clock (env_fixed 75600000) (clock_reads init_ui)) = 75600000
   \<and> fst (time_to_datetime (env_fixed 75600000) ''00:30'' init_ui) = 1800000
   \<and> fst (time_to_datetime (env_fixed 75600000) ''00:30'' init_ui)
       \<le> clock (env_fixed 75600000) (clock_reads init_ui)"
proof -
  let ?env = "env_fixed 75600000"
  let ?pts = "[(''Fajr'', 18000000), (''Sunrise'', 23400000), (''Dhuhr'', 44100000),
             (''Asr'', 55800000), (''Maghrib'', 65400000), (''Isha'', 72000000),
             (''Midnight'', 1800000 :: int)]"
  have parsed: "fst (extract_times ?env example_timings prayer_names init_ui) = Some ?pts"
    by code_simp
  then obtain s' where extracted: "extract_times ?env example_timings prayer_names init_ui = (Some ?pts, s')"
    by (cases "extract_times ?env example_timings prayer_names init_ui") simp
  have day: "\<forall>k < 7. date_of (clock ?env (clock_reads init_ui + k)) = 0"
    by (simp add: env_fixed_def date_of_def)
  have tod: "time_of (clock ?env (clock_reads init_ui)) = 75600000"
    by (simp add: env_fixed_def time_of_def)
  then have late: "30 * 60000 \<le> time_of (clock ?env (clock_reads init_ui))"
    by simp
  note main = time_to_datetime_is_today [of ?env "''00:30''" init_ui example_timings ?pts s' 0]
  from main extracted day have dates: "\<forall>(p, t) \<in> set ?pts. date_of t = 0"
    by blast
  from main have raw: "fst (time_to_datetime ?env ''00:30'' init_ui)
       = date_of (clock ?env (clock_reads init_ui)) * msecs_per_day + 30 * 60000"
    by blast
  from main late have passed: "fst (time_to_datetime ?env ''00:30'' init_ui)
       \<le> clock ?env (clock_reads init_ui)"
    by blast
  from raw have early: "fst (time_to_datetime ?env ''00:30'' init_ui) = 1800000"
    by (simp add: env_fixed_def date_of_def)
  from dates have "date_of 18000000 = 0" and "date_of 72000000 = 0" and "date_of 1800000 = 0"
    by simp_all
  with parsed tod early passed show ?thesis by blast
qed

section \<open>Provider failure and countdown expiry\<close>

lemma countdown_ticks_unset:
  "next_prayer_time s = None \<Longrightarrow> countdown_ticks n fuel env s = Some s"
  by (induction n) (simp_all add: update_countdown_unset)

text \<open>
  Claim C8. When the answer to today's request has a status other than 200, the refresh
  returns at once: the next prayer and the stored times are left as they were, the label
  shows the error text and the countdown shows the placeholder. Hence a next prayer that
  was unset remains unset, and then every later countdown tick leaves the widget as it is,
  whatever the clock and the provider do.
\<close>

theorem provider_error_leaves_next_prayer_unset:
  assumes "provider env (length (requests s)) (date_of (clock env (clock_reads s)), True)
             = Reply code timings"
    and "code \<noteq> 200"
  shows "\<exists>s'. update_prayer_times fuel env s = Some s'
           \<and> s' = s\<lparr>clock_reads := Suc (clock_reads s),
                     requests := requests s @ [(date_of (clock env (clock_reads s)), True)],
                     next_prayer_label := ''Prayer API Error: Try again later'',
                     countdown_label := ''--:--:--''\<rparr>
           \<and> next_prayer s' = next_prayer s \<and> next_prayer_time s' = next_prayer_time s
           \<and> prayer_times s' = prayer_times s
           \<and> (next_prayer_time s = None \<longrightarrow>
                next_prayer_time s' = None
                \<and> update_countdown fuel' env' s' = Some s'
                \<and> countdown_ticks n fuel' env' s' = Some s')"
proof -
  let ?s' = "s\<lparr>clock_reads := Suc (clock_reads s),
                requests := requests s @ [(date_of (clock env (clock_reads s)), True)],
                next_prayer_label := ''Prayer API Error: Try again later'',
                countdown_label := ''--:--:--''\<rparr>"
  from assms have "fetch_prayer_times env s =
      (Api_Error, s\<lparr>clock_reads := Suc (clock_reads s),
                    requests := requests s @ [(date_of (clock env (clock_reads s)), True)]\<rparr>)"
    by (simp add: fetch_prayer_times_def currentDate_def requests_get_def)
  then have result: "update_prayer_times fuel env s = Some ?s'"
    by (simp add: update_prayer_times.simps prayer_api_error_def)
  have "next_prayer_time s = None \<longrightarrow>
          next_prayer_time ?s' = None
          \<and> update_countdown fuel' env' ?s' = Some ?s'
          \<and> countdown_ticks n fuel' env' ?s' = Some ?s'"
    by (simp add: update_countdown_unset countdown_ticks_unset)
  with result show ?thesis by simp
qed

theorem provider_error_leaves_next_prayer_unset_witness:
  "provider (env_down 75600000) (length (requests init_ui))
     (date_of (clock (env_down 75600000) (clock_reads init_ui)), True) = Reply 500 []
   \<and> next_prayer_time init_ui = None
   \<and> update_prayer_times 0 (env_down 75600000) init_ui =
       Some (init_ui\<lparr>clock_reads := 1, requests := [(0, True)],
               next_prayer_label := ''Prayer API Error: Try again later'',
               countdown_label := ''--:--:--''\<rparr>)
   \<and> countdown_ticks 3 0 (env_fixed 75600000)
         (init_ui\<lparr>clock_reads := 1, requests := [(0, True)],
            next_prayer_label := ''Prayer API Error: Try again later'',
            countdown_label := ''--:--:--''\<rparr>) =
       Some (init_ui\<lparr>clock_reads := 1, requests := [(0, True)],
               next_prayer_label := ''Prayer API Error: Try again later'',
               countdown_label := ''--:--:--''\<rparr>)"
proof -
  have h1: "provider (env_down 75600000) (length (requests init_ui))
     (date_of (clock (env_down 75600000) (clock_reads init_ui)), True) = Reply 500 []"
    by (simp add: env_down_def)
  have h2: "(500::int) \<noteq> 200" by simp
  have unset: "next_prayer_time init_ui = None"
    by (simp add: init_ui_def)
  have day: "date_of (clock (env_down 75600000) k) = 0" for k
    by (simp add: env_down_def date_of_def)
  have start: "clock_reads init_ui = 0" "requests init_ui = []"
    by (simp_all add: init_ui_def)
  from provider_error_leaves_next_prayer_unset [OF h1 h2, of 0 0 "env_fixed 75600000" 3]
  have "update_prayer_times 0 (env_down 75600000) init_ui =
       Some (init_ui\<lparr>clock_reads := 1, requests := [(0, True)],
               next_prayer_label := ''Prayer API Error: Try again later'',
               countdown_label := ''--:--:--''\<rparr>)
   \<and> countdown_ticks 3 0 (env_fixed 75600000)
         (init_ui\<lparr>clock_reads := 1, requests := [(0, True)],
            next_prayer_label := ''Prayer API Error: Try again later'',
            countdown_label := ''--:--:--''\<rparr>) =
       Some (init_ui\<lparr>clock_reads := 1, requests := [(0, True)],
               next_prayer_label := ''Prayer API Error: Try again later'',
               countdown_label := ''--:--:--''\<rparr>)"
    by (simp add: unset day start)
  with h1 unset show ?thesis by blast
qed

text \<open>
  Claim C6 on a concrete tick. The next prayer is Fajr at 05:00:00.000 and the tick reads
  the clock at 04:59:59.500: Fajr has not passed, but \<open>secsTo\<close> truncates the half second to
  0, so the tick takes the branch for a passed time and refreshes. The refresh selects Fajr
  again, because it is still later than the clock in milliseconds, and its countdown update
  finds 0 seconds again and refreshes a second time within the same tick: four requests
  are sent, two for today and two for tomorrow. When only one nested refresh fits under
  the recursion limit, the second one raises and the tick ends with the error text.
\<close>

theorem expired_tick_refreshes_twice:
  "next_prayer_time widget_before_fajr = Some 18000000
   \<and> clock env_ticking (clock_reads widget_before_fajr) < 18000000
   \<and> secsTo (clock env_ticking (clock_reads widget_before_fajr)) 18000000 = 0
   \<and> requests widget_before_fajr = []
   \<and> map_option requests (update_countdown 2 env_ticking widget_before_fajr)
       = Some [(0, True), (1, True), (0, True), (1, True)]
   \<and> map_option next_prayer (update_countdown 2 env_ticking widget_before_fajr)
       = Some (Some ''Sunrise'')
   \<and> map_option requests (update_countdown 1 env_ticking widget_before_fajr)
       = Some [(0, True), (1, True)]
   \<and> map_option next_prayer_label (update_countdown 1 env_ticking widget_before_fajr)
       = Some ''Error: Could not update prayer times''"
proof -
  have a: "next_prayer_time widget_before_fajr = Some 18000000"
    by (simp add: widget_before_fajr_def)
  have b: "clock env_ticking (clock_reads widget_before_fajr) < 18000000"
    by code_simp
  have c: "secsTo (clock env_ticking (clock_reads widget_before_fajr)) 18000000 = 0"
    by code_simp
  have d: "requests widget_before_fajr = []"
    by code_simp
  have e: "map_option requests (update_countdown 2 env_ticking widget_before_fajr)
       = Some [(0, True), (1, True), (0, True), (1, True)]"
    by code_simp
  have f: "map_option next_prayer (update_countdown 2 env_ticking widget_before_fajr)
       = Some (Some ''Sunrise'')"
    by code_simp
  have g: "map_option requests (update_countdown 1 env_ticking widget_before_fajr)
       = Some [(0, True), (1, True)]"
    by code_simp
  have h: "map_option next_prayer_label (update_countdown 1 env_ticking widget_before_fajr)
       = Some ''Error: Could not update prayer times''"
    by code_simp
  from a b c d e f g h show ?thesis by blast
qed

section \<open>Every call returns\<close>

text \<open>
  Whatever the clock and the provider do, each of the three operations returns: a refresh
  that is nested too deep ends in the handler of \<^verbatim>\<open>update_prayer_times\<close>.
\<close>

lemma update_returns:
  "(\<exists>s'. update_prayer_times fuel env s = Some s')
   \<and> (\<exists>s'. update_next_prayer fuel env s = Some s')
   \<and> (\<exists>s'. update_countdown fuel env s = Some s')"
proof (induction fuel arbitrary: s)
  case 0
  have countdown: "\<exists>s'. update_countdown 0 env a = Some s'" for a
    by (simp add: update_countdown.simps currentDateTime_def Let_def split: option.split)
  have resolve: "\<exists>s'. update_next_prayer 0 env a = Some s'" for a
    using countdown
    by (simp add: update_next_prayer.simps currentDateTime_def Let_def
          split: option.split prod.split)
  have refresh: "\<exists>s'. update_prayer_times 0 env a = Some s'" for a
  proof -
    obtain outcome s1 where "fetch_prayer_times env a = (outcome, s1)"
      by (cases "fetch_prayer_times env a")
    moreover from resolve obtain s2 where "update_next_prayer 0 env s1 = Some s2"
      by blast
    ultimately show ?thesis
      by (cases outcome) (simp_all add: update_prayer_times.simps)
  qed
  from refresh resolve countdown show ?case by blast
next
  case (Suc n)
  from Suc.IH have nested: "\<exists>s'. update_prayer_times n env a = Some s'" for a
    by blast
  have countdown: "\<exists>s'. update_countdown (Suc n) env a = Some s'" for a
    using nested
    by (simp add: update_countdown.simps currentDateTime_def Let_def split: option.split)
  have resolve: "\<exists>s'. update_next_prayer (Suc n) env a = Some s'" for a
    using countdown
    by (simp add: update_next_prayer.simps currentDateTime_def Let_def
          split: option.split prod.split)
  have refresh: "\<exists>s'. update_prayer_times (Suc n) env a = Some s'" for a
  proof -
    obtain outcome s1 where "fetch_prayer_times env a = (outcome, s1)"
      by (cases "fetch_prayer_times env a")
    moreover from resolve obtain s2 where "update_next_prayer (Suc n) env s1 = Some s2"
      by blast
    ultimately show ?thesis
      by (cases outcome) (simp_all add: update_prayer_times.simps)
  qed
  from refresh resolve countdown show ?case by blast
qed

section \<open>Refreshing twice\<close>

lemma prayer_names_present:
  assumes "\<forall>k \<in> set prayer_names. map_of timings k \<noteq> None"
  shows "\<exists>fajr sunrise dhuhr asr maghrib isha midnight.
     map_of timings ''Fajr'' = Some fajr \<and> map_of timings ''Sunrise'' = Some sunrise
     \<and> map_of timings ''Dhuhr'' = Some dhuhr \<and> map_of timings ''Asr'' = Some asr
     \<and> map_of timings ''Maghrib'' = Some maghrib \<and> map_of timings ''Isha'' = Some isha
     \<and> map_of timings ''Midnight'' = Some midnight"
proof -
  have "''Fajr'' \<in> set prayer_names" "''Sunrise'' \<in> set prayer_names"
    "''Dhuhr'' \<in> set prayer_names" "''Asr'' \<in> set prayer_names"
    "''Maghrib'' \<in> set prayer_names" "''Isha'' \<in> set prayer_names"
    "''Midnight'' \<in> set prayer_names"
    by (simp_all add: prayer_names_def)
  with assms have "map_of timings ''Fajr'' \<noteq> None" "map_of timings ''Sunrise'' \<noteq> None"
    "map_of timings ''Dhuhr'' \<noteq> None" "map_of timings ''Asr'' \<noteq> None"
    "map_of timings ''Maghrib'' \<noteq> None" "map_of timings ''Isha'' \<noteq> None"
    "map_of timings ''Midnight'' \<noteq> None"
    by blast+
  then show ?thesis by (simp only: not_None_eq) blast
qed

lemma fetch_prayer_times_steady:
  assumes "\<forall>k. clock env k = now"
    and "\<forall>n rq. provider env n rq = Reply 200 (answer rq)"
    and "\<forall>rq. \<forall>k \<in> set prayer_names. map_of (answer rq) k \<noteq> None"
  shows "\<exists>pts. (\<forall>(p, t) \<in> set pts. t mod 1000 = 0)
           \<and> (\<forall>s. fetch_prayer_times env s =
                 (Fetched,
                  s\<lparr>requests := requests s @ [(date_of now, True), (date_of now + 1, True)],
                    clock_reads := clock_reads s + 10,
                    prayer_times := pts\<rparr>))"
proof -
  from assms(3) have "\<forall>k \<in> set prayer_names. map_of (answer (date_of now, True)) k \<noteq> None"
    by blast
  from prayer_names_present [OF this] obtain fajr sunrise dhuhr asr maghrib isha midnight
    where keys: "map_of (answer (date_of now, True)) ''Fajr'' = Some fajr"
      "map_of (answer (date_of now, True)) ''Sunrise'' = Some sunrise"
      "map_of (answer (date_of now, True)) ''Dhuhr'' = Some dhuhr"
      "map_of (answer (date_of now, True)) ''Asr'' = Some asr"
      "map_of (answer (date_of now, True)) ''Maghrib'' = Some maghrib"
      "map_of (answer (date_of now, True)) ''Isha'' = Some isha"
      "map_of (answer (date_of now, True)) ''Midnight'' = Some midnight"
    by blast
  from assms(3) have "\<forall>k \<in> set prayer_names. map_of (answer (date_of now + 1, True)) k \<noteq> None"
    by blast
  from prayer_names_present [OF this] obtain fajr'
    where key': "map_of (answer (date_of now + 1, True)) ''Fajr'' = Some fajr'"
    by blast
  define at where "at str = QDateTime_of (date_of now) (QTime_fromString str)" for str
  define midpoint where "midpoint = addSecs (at isha)
     (secsTo (at isha) (QDateTime_of (date_of now + 1) (QTime_fromString fajr')) div 2)"
  define raw where "raw = [(''Fajr'', at fajr), (''Sunrise'', at sunrise), (''Dhuhr'', at dhuhr),
     (''Asr'', at asr), (''Maghrib'', at maghrib), (''Isha'', at isha), (''Midnight'', at midnight)]"
  define pts where "pts = [(''Fajr'', at fajr), (''Sunrise'', at sunrise), (''Dhuhr'', at dhuhr),
     (''Asr'', at asr), (''Maghrib'', at maghrib), (''Isha'', at isha), (''Midnight'', midpoint)]"
  have whole: "at str mod 1000 = 0" for str
    by (simp add: at_def QDateTime_of_parts)
  have "midpoint mod 1000 = 0"
    using whole [of isha] by (simp add: midpoint_def addSecs_def)
  with whole have all_whole: "\<forall>(p, t) \<in> set pts. t mod 1000 = 0"
    by (simp add: pts_def)
  have updated: "AList.update ''Midnight'' midpoint raw = pts"
    by (simp add: pts_def raw_def)
  have isha_raw: "map_of raw ''Isha'' = Some (at isha)"
    by (simp add: raw_def)
  have fetched: "fetch_prayer_times env s =
                 (Fetched,
                  s\<lparr>requests := requests s @ [(date_of now, True), (date_of now + 1, True)],
                    clock_reads := clock_reads s + 10,
                    prayer_times := pts\<rparr>)" for s
  proof -
    let ?s1 = "s\<lparr>requests := requests s @ [(date_of now, True)],
          clock_reads := clock_reads s + 8, prayer_times := raw\<rparr>"
    have today: "provider env (length (requests s)) (date_of (clock env (clock_reads s)), True)
        = Reply 200 (answer (date_of now, True))"
      using assms(1,2) by simp
    have "fetch_prayer_times env s = adjust_midnight env
       (s\<lparr>requests := requests s @ [(date_of (clock env (clock_reads s)), True)],
          clock_reads := clock_reads s + 8,
          prayer_times :=
            [(''Fajr'', QDateTime_of (date_of (clock env (clock_reads s + 1))) (QTime_fromString fajr)),
             (''Sunrise'', QDateTime_of (date_of (clock env (clock_reads s + 2))) (QTime_fromString sunrise)),
             (''Dhuhr'', QDateTime_of (date_of (clock env (clock_reads s + 3))) (QTime_fromString dhuhr)),
             (''Asr'', QDateTime_of (date_of (clock env (clock_reads s + 4))) (QTime_fromString asr)),
             (''Maghrib'', QDateTime_of (date_of (clock env (clock_reads s + 5))) (QTime_fromString maghrib)),
             (''Isha'', QDateTime_of (date_of (clock env (clock_reads s + 6))) (QTime_fromString isha)),
             (''Midnight'', QDateTime_of (date_of (clock env (clock_reads s + 7))) (QTime_fromString midnight))]\<rparr>)"
      by (rule fetch_prayer_times_parsed [OF today keys])
    also have "\<dots> = adjust_midnight env ?s1"
      using assms(1) by (simp only: raw_def at_def)
    finally have parsed: "fetch_prayer_times env s = adjust_midnight env ?s1" .
    have isha: "map_of (prayer_times ?s1) ''Isha'' = Some (at isha)"
      using isha_raw by simp
    have tomorrow: "provider env (length (requests ?s1))
        (date_of (clock env (clock_reads ?s1)) + 1, True) = Reply 200 (answer (date_of now + 1, True))"
      using assms(1,2) by simp
    have "adjust_midnight env ?s1 =
      (Fetched,
       ?s1\<lparr>requests := requests ?s1 @ [(date_of (clock env (clock_reads ?s1)) + 1, True)],
         clock_reads := clock_reads ?s1 + 2,
         prayer_times :=
           AList.update ''Midnight''
             (addSecs (at isha)
               (secsTo (at isha)
                  (QDateTime_of (date_of (clock env (clock_reads ?s1)) + 1) (QTime_fromString fajr'))
                div 2))
            (prayer_times ?s1)\<rparr>)"
      by (rule adjust_midnight_available [OF isha tomorrow key'])
    also have "\<dots> = (Fetched,
                  s\<lparr>requests := requests s @ [(date_of now, True), (date_of now + 1, True)],
                    clock_reads := clock_reads s + 10,
                    prayer_times := pts\<rparr>)"
      using assms(1) updated by (simp add: midpoint_def)
    finally show ?thesis using parsed by simp
  qed
  from all_whole fetched show ?thesis by blast
qed

lemma tomorrow_fajr_fallback_steady:
  assumes "\<forall>k. clock env k = now"
    and "\<forall>n rq. provider env n rq = Reply 200 (answer rq)"
    and "\<forall>rq. \<forall>k \<in> set prayer_names. map_of (answer rq) k \<noteq> None"
  shows "\<exists>str. \<forall>s. tomorrow_fajr_fallback env s =
           (Some (QDateTime_of (date_of now + 1) (QTime_fromString str)),
            s\<lparr>clock_reads := Suc (clock_reads s),
              requests := requests s @ [(date_of now + 1, False)]\<rparr>)"
proof -
  from assms(3) have "\<forall>k \<in> set prayer_names. map_of (answer (date_of now + 1, False)) k \<noteq> None"
    by blast
  from prayer_names_present [OF this] obtain str
    where "map_of (answer (date_of now + 1, False)) ''Fajr'' = Some str"
    by blast
  with assms(1,2) have "tomorrow_fajr_fallback env s =
           (Some (QDateTime_of (date_of now + 1) (QTime_fromString str)),
            s\<lparr>clock_reads := Suc (clock_reads s),
              requests := requests s @ [(date_of now + 1, False)]\<rparr>)" for s
    by (simp add: tomorrow_fajr_fallback_def currentDate_def requests_get_def Let_def)
  then show ?thesis by blast
qed

text \<open>
  With the clock standing still, the countdown update treats two widgets alike when they
  agree on the stored times, the next prayer and its label, provided that a nested refresh
  does not depend on the widget it starts from.
\<close>

lemma update_countdown_alike:
  assumes "\<forall>k. clock env k = now"
    and "\<And>n a b. fuel = Suc n \<Longrightarrow>
           map_option prayer_state (update_prayer_times n env a)
             = map_option prayer_state (update_prayer_times n env b)"
    and "prayer_times s = prayer_times s'" and "next_prayer s = next_prayer s'"
    and "next_prayer_time s = Some t" and "next_prayer_time s' = Some t"
    and "next_prayer_label s = next_prayer_label s'"
  shows "map_option prayer_state (update_countdown fuel env s)
           = map_option prayer_state (update_countdown fuel env s')"
proof (cases "0 < secsTo now t")
  case True
  with assms(1,3-7) show ?thesis
    by (simp add: update_countdown.simps currentDateTime_def prayer_state_def)
next
  case False
  show ?thesis
  proof (cases fuel)
    case 0
    with False assms(1,3-7) show ?thesis
      by (simp add: update_countdown.simps currentDateTime_def currentDate_def
            update_prayer_times_over_limit_def update_error_def prayer_state_def)
  next
    case (Suc n)
    with False assms(1,5,6) assms(2) [OF Suc] show ?thesis
      by (simp add: update_countdown.simps currentDateTime_def)
  qed
qed

lemma update_next_prayer_alike:
  assumes "\<forall>k. clock env k = now"
    and "\<forall>n rq. provider env n rq = Reply 200 (answer rq)"
    and "\<forall>rq. \<forall>k \<in> set prayer_names. map_of (answer rq) k \<noteq> None"
    and "\<And>n a b. fuel = Suc n \<Longrightarrow>
           map_option prayer_state (update_prayer_times n env a)
             = map_option prayer_state (update_prayer_times n env b)"
    and "prayer_times s = prayer_times s'"
  shows "map_option prayer_state (update_next_prayer fuel env s)
           = map_option prayer_state (update_next_prayer fuel env s')"
proof (cases "scan_prayers now (prayer_times s) None")
  case None
  from tomorrow_fajr_fallback_steady [OF assms(1-3)] obtain str
    where fallback: "\<And>a. tomorrow_fajr_fallback env a =
           (Some (QDateTime_of (date_of now + 1) (QTime_fromString str)),
            a\<lparr>clock_reads := Suc (clock_reads a),
              requests := requests a @ [(date_of now + 1, False)]\<rparr>)"
    by blast
  let ?t = "QDateTime_of (date_of now + 1) (QTime_fromString str)"
  let ?store = "\<lambda>a. store_next_prayer ''Fajr (Tomorrow)'' ?t
      (a\<lparr>clock_reads := Suc (Suc (clock_reads a)),
         requests := requests a @ [(date_of now + 1, False)]\<rparr>)"
  have step: "update_next_prayer fuel env a = update_countdown fuel env (?store a)"
    if "prayer_times a = prayer_times s" for a
    using that None assms(1) by (simp add: update_next_prayer.simps currentDateTime_def fallback)
  have "map_option prayer_state (update_countdown fuel env (?store s))
      = map_option prayer_state (update_countdown fuel env (?store s'))"
    by (rule update_countdown_alike [OF assms(1) assms(4)])
      (simp_all add: store_next_prayer_def assms(5))
  with step [of s] step [of s'] assms(5) show ?thesis by simp
next
  case (Some found)
  obtain p t where found: "found = (p, t)" by (cases found)
  let ?store = "\<lambda>a. store_next_prayer p t (a\<lparr>clock_reads := Suc (clock_reads a)\<rparr>)"
  have step: "update_next_prayer fuel env a = update_countdown fuel env (?store a)"
    if "prayer_times a = prayer_times s" for a
    using that Some found assms(1) by (simp add: update_next_prayer.simps currentDateTime_def)
  have "map_option prayer_state (update_countdown fuel env (?store s))
      = map_option prayer_state (update_countdown fuel env (?store s'))"
    by (rule update_countdown_alike [OF assms(1) assms(4)])
      (simp_all add: store_next_prayer_def assms(5))
  with step [of s] step [of s'] assms(5) show ?thesis by simp
qed

lemma update_prayer_times_alike:
  assumes "\<forall>k. clock env k = now"
    and "\<forall>n rq. provider env n rq = Reply 200 (answer rq)"
    and "\<forall>rq. \<forall>k \<in> set prayer_names. map_of (answer rq) k \<noteq> None"
  shows "map_option prayer_state (update_prayer_times fuel env s)
           = map_option prayer_state (update_prayer_times fuel env s')"
proof (induction fuel arbitrary: s s' rule: less_induct)
  case (less fuel)
  have nested: "map_option prayer_state (update_prayer_times n env a)
             = map_option prayer_state (update_prayer_times n env b)"
    if "fuel = Suc n" for n a b
    using that less.IH [of n a b] by simp
  from fetch_prayer_times_steady [OF assms] obtain pts
    where fetched: "\<And>a. fetch_prayer_times env a =
                 (Fetched,
                  a\<lparr>requests := requests a @ [(date_of now, True), (date_of now + 1, True)],
                    clock_reads := clock_reads a + 10,
                    prayer_times := pts\<rparr>)"
    by blast
  let ?f = "\<lambda>a. a\<lparr>requests := requests a @ [(date_of now, True), (date_of now + 1, True)],
                    clock_reads := clock_reads a + 10,
                    prayer_times := pts\<rparr>"
  have resolved: "map_option prayer_state (update_next_prayer fuel env (?f s))
           = map_option prayer_state (update_next_prayer fuel env (?f s'))"
    by (rule update_next_prayer_alike [OF assms nested]) simp_all
  have unfold: "update_prayer_times fuel env a =
      (case update_next_prayer fuel env (?f a) of
         None \<Rightarrow> None
       | Some s2 \<Rightarrow> if update_prayer_displays_raises s2 then Some (update_error s2) else Some s2)"
    for a
    by (simp add: update_prayer_times.simps fetched)
  show ?case
  proof (cases "update_next_prayer fuel env (?f s)")
    case None
    with resolved have "update_next_prayer fuel env (?f s') = None" by simp
    with None show ?thesis by (simp add: unfold)
  next
    case (Some r)
    with resolved obtain r' where r': "update_next_prayer fuel env (?f s') = Some r'"
      and same: "prayer_state r = prayer_state r'"
      by (cases "update_next_prayer fuel env (?f s')") auto
    from same have "update_prayer_displays_raises r = update_prayer_displays_raises r'"
      and "prayer_state (update_error r) = prayer_state (update_error r')"
      by (simp_all add: prayer_state_def update_prayer_displays_raises_def update_error_def)
    with Some r' same show ?thesis by (simp add: unfold)
  qed
qed

text \<open>
  With such a clock and provider a refresh leaves a next prayer stored and does not touch
  the timers.
\<close>

lemma update_prayer_times_stores:
  assumes "\<forall>k. clock env k = now"
    and "\<forall>n rq. provider env n rq = Reply 200 (answer rq)"
    and "\<forall>rq. \<forall>k \<in> set prayer_names. map_of (answer rq) k \<noteq> None"
    and "update_prayer_times fuel env s = Some r"
  shows "next_prayer r \<noteq> None \<and> next_prayer_time r \<noteq> None
         \<and> countdown_timer r = countdown_timer s \<and> daily_timer r = daily_timer s"
  using assms(4)
proof (induction fuel arbitrary: s r rule: less_induct)
  case (less fuel)
  have countdown: "next_prayer b \<noteq> None \<and> next_prayer_time b \<noteq> None
         \<and> countdown_timer b = countdown_timer a \<and> daily_timer b = daily_timer a"
    if "update_countdown fuel env a = Some b" and "next_prayer a \<noteq> None"
      and "next_prayer_time a = Some t" for a b t
  proof (cases "0 < secsTo now t")
    case True
    with that assms(1) show ?thesis
      by (auto simp add: update_countdown.simps currentDateTime_def)
  next
    case False
    show ?thesis
    proof (cases fuel)
      case 0
      with False that assms(1) show ?thesis
        by (auto simp add: update_countdown.simps currentDateTime_def currentDate_def
              update_prayer_times_over_limit_def update_error_def)
    next
      case (Suc n)
      with False that assms(1)
      have "update_prayer_times n env (a\<lparr>clock_reads := Suc (clock_reads a)\<rparr>) = Some b"
        by (simp add: update_countdown.simps currentDateTime_def)
      from less.IH [OF _ this] Suc show ?thesis by simp
    qed
  qed
  from fetch_prayer_times_steady [OF assms(1-3)] obtain pts
    where fetched: "\<And>a. fetch_prayer_times env a =
                 (Fetched,
                  a\<lparr>requests := requests a @ [(date_of now, True), (date_of now + 1, True)],
                    clock_reads := clock_reads a + 10,
                    prayer_times := pts\<rparr>)"
    by blast
  let ?a = "s\<lparr>requests := requests s @ [(date_of now, True), (date_of now + 1, True)],
                    clock_reads := clock_reads s + 10,
                    prayer_times := pts\<rparr>"
  from less.prems obtain s2 where resolved: "update_next_prayer fuel env ?a = Some s2"
    and result: "r = (if update_prayer_displays_raises s2 then update_error s2 else s2)"
    by (auto simp add: update_prayer_times.simps fetched split: option.splits if_splits)
  have "next_prayer s2 \<noteq> None \<and> next_prayer_time s2 \<noteq> None
         \<and> countdown_timer s2 = countdown_timer s \<and> daily_timer s2 = daily_timer s"
  proof (cases "scan_prayers now pts None")
    case None
    from tomorrow_fajr_fallback_steady [OF assms(1-3)] obtain str
      where fallback: "\<And>a. tomorrow_fajr_fallback env a =
           (Some (QDateTime_of (date_of now + 1) (QTime_fromString str)),
            a\<lparr>clock_reads := Suc (clock_reads a),
              requests := requests a @ [(date_of now + 1, False)]\<rparr>)"
      by blast
    let ?t = "QDateTime_of (date_of now + 1) (QTime_fromString str)"
    let ?b = "store_next_prayer ''Fajr (Tomorrow)'' ?t
      (?a\<lparr>clock_reads := Suc (Suc (clock_reads ?a)),
         requests := requests ?a @ [(date_of now + 1, False)]\<rparr>)"
    have "update_next_prayer fuel env ?a = update_countdown fuel env ?b"
      using None assms(1) by (simp add: update_next_prayer.simps currentDateTime_def fallback)
    with resolved have "update_countdown fuel env ?b = Some s2" by simp
    from countdown [OF this, of ?t] show ?thesis
      by (simp add: store_next_prayer_def)
  next
    case (Some found)
    obtain p t where found: "found = (p, t)" by (cases found)
    let ?b = "store_next_prayer p t (?a\<lparr>clock_reads := Suc (clock_reads ?a)\<rparr>)"
    have "update_next_prayer fuel env ?a = update_countdown fuel env ?b"
      using Some found assms(1) by (simp add: update_next_prayer.simps currentDateTime_def)
    with resolved have "update_countdown fuel env ?b = Some s2" by simp
    from countdown [OF this, of t] show ?thesis
      by (simp add: store_next_prayer_def)
  qed
  with result show ?case by (simp add: update_error_def)
qed

text \<open>
  Claim C9. With the clock standing still at any \<open>now\<close> and a provider that answers every
  request with code 200 and complete timings that depend on the request only, two
  refreshes in a row both return, whatever the recursion limit, and the second leaves the
  widget as the first did: a next prayer is stored, its name and timestamp are the same
  after each refresh, and so are the stored times, the two labels and the timers. Only the
  environment's counters of clock readings and of requests grow.
\<close>

theorem refresh_is_idempotent:
  assumes "\<forall>k. clock env k = now"
    and "\<forall>n rq. provider env n rq = Reply 200 (answer rq)"
    and "\<forall>rq. \<forall>k \<in> set prayer_names. map_of (answer rq) k \<noteq> None"
  shows "\<exists>s1 s2. update_data fuel env s = Some s1 \<and> update_data fuel env s1 = Some s2
           \<and> next_prayer s1 \<noteq> None \<and> next_prayer_time s1 \<noteq> None
           \<and> next_prayer s2 = next_prayer s1
           \<and> next_prayer_time s2 = next_prayer_time s1
           \<and> prayer_times s2 = prayer_times s1
           \<and> next_prayer_label s2 = next_prayer_label s1
           \<and> countdown_label s2 = countdown_label s1
           \<and> countdown_timer s2 = countdown_timer s1
           \<and> daily_timer s2 = daily_timer s1"
proof -
  from update_returns [of fuel env s] obtain s1
    where first: "update_prayer_times fuel env s = Some s1" by blast
  from update_returns [of fuel env s1] obtain s2
    where second: "update_prayer_times fuel env s1 = Some s2" by blast
  from update_prayer_times_stores [OF assms first]
  have stored: "next_prayer s1 \<noteq> None" "next_prayer_time s1 \<noteq> None" by simp_all
  from update_prayer_times_stores [OF assms second]
  have timers: "countdown_timer s2 = countdown_timer s1" "daily_timer s2 = daily_timer s1"
    by simp_all
  from update_prayer_times_alike [OF assms, of fuel s1 s] first second
  have "prayer_state s2 = prayer_state s1" by simp
  then have "next_prayer s2 = next_prayer s1" and "next_prayer_time s2 = next_prayer_time s1"
    and "prayer_times s2 = prayer_times s1" and "next_prayer_label s2 = next_prayer_label s1"
    and "countdown_label s2 = countdown_label s1"
    by (simp_all add: prayer_state_def)
  with first second stored timers show ?thesis
    unfolding update_data_def by blast
qed

theorem refresh_is_idempotent_witness:
  "(\<exists>s1 s2. update_data 0 (env_fixed 75600500) init_ui = Some s1
       \<and> update_data 0 (env_fixed 75600500) s1 = Some s2
       \<and> next_prayer s2 = next_prayer s1 \<and> next_prayer_time s2 = next_prayer_time s1)
   \<and> map_option next_prayer (update_data 0 (env_fixed 75600500) init_ui)
       = Some (Some ''Midnight'')
   \<and> map_option next_prayer_time (update_data 0 (env_fixed 75600500) init_ui)
       = Some (Some 88200000)
   \<and> map_option countdown_label (update_data 0 (env_fixed 75600500) init_ui)
       = Some ''Time Remaining: 03:29:59''
   \<and> (\<exists>s1 s2. update_data 2 (env_fixed 17999500) init_ui = Some s1
       \<and> update_data 2 (env_fixed 17999500) s1 = Some s2
       \<and> next_prayer s2 = next_prayer s1 \<and> next_prayer_time s2 = next_prayer_time s1
       \<and> next_prayer_label s2 = next_prayer_label s1)
   \<and> map_option next_prayer (update_data 2 (env_fixed 17999500) init_ui)
       = Some (Some ''Fajr'')
   \<and> map_option next_prayer_label (update_data 2 (env_fixed 17999500) init_ui)
       = Some ''Error: Could not update prayer times''"
proof -
  have clock: "\<forall>k. clock (env_fixed now) k = now" for now
    by (simp add: env_fixed_def)
  have provider: "\<forall>n rq. provider (env_fixed now) n rq = Reply 200 ((\<lambda>rq. example_timings) rq)"
    for now
    by (simp add: env_fixed_def)
  have complete:
    "\<forall>rq :: request. \<forall>k \<in> set prayer_names. map_of ((\<lambda>rq. example_timings) rq) k \<noteq> None"
    by (simp add: prayer_names_def example_timings_def)
  from refresh_is_idempotent [OF clock [of 75600500] provider [of 75600500] complete,
      where fuel = 0 and s = init_ui]
  have a: "\<exists>s1 s2. update_data 0 (env_fixed 75600500) init_ui = Some s1
       \<and> update_data 0 (env_fixed 75600500) s1 = Some s2
       \<and> next_prayer s2 = next_prayer s1 \<and> next_prayer_time s2 = next_prayer_time s1"
    by blast
  from refresh_is_idempotent [OF clock [of 17999500] provider [of 17999500] complete,
      where fuel = 2 and s = init_ui]
  have b: "\<exists>s1 s2. update_data 2 (env_fixed 17999500) init_ui = Some s1
       \<and> update_data 2 (env_fixed 17999500) s1 = Some s2
       \<and> next_prayer s2 = next_prayer s1 \<and> next_prayer_time s2 = next_prayer_time s1
       \<and> next_prayer_label s2 = next_prayer_label s1"
    by blast
  have c: "map_option next_prayer (update_data 0 (env_fixed 75600500) init_ui)
       = Some (Some ''Midnight'')"
    by code_simp
  have d: "map_option next_prayer_time (update_data 0 (env_fixed 75600500) init_ui)
       = Some (Some 88200000)"
    by code_simp
  have e: "map_option countdown_label (update_data 0 (env_fixed 75600500) init_ui)
       = Some ''Time Remaining: 03:29:59''"
    by code_simp
  have f: "map_option next_prayer (update_data 2 (env_fixed 17999500) init_ui)
       = Some (Some ''Fajr'')"
    by code_simp
  have g: "map_option next_prayer_label (update_data 2 (env_fixed 17999500) init_ui)
       = Some ''Error: Could not update prayer times''"
    by code_simp
  from a b c d e f g show ?thesis by blast
qed

end
